theory Spec2Isabelle
  imports Complex_Main
begin

section \<open>JavaScript values used by the two handlers\<close>

text \<open>
  A parsed JSON value. \<open>JObj\<close> carries the properties of the parsed object; a JavaScript
  value that may be \<open>undefined\<close> is a \<open>json option\<close> with \<open>None\<close> for \<open>undefined\<close>.
  A number inside a parsed provider response is only handed on, never computed with, and is
  kept as the rational it denotes.
\<close>

datatype json =
    JNull
  | JBool bool
  | JNum rat
  | JStr string
  | JArr "json list"
  | JObj "(string \<times> json) list"

type_synonym jsval = "json option"

text \<open>The fields of a thrown error object that the catch blocks read.\<close>

record js_error =
  err_name :: string
  err_code :: "string option"
  err_message :: "string option"
  err_type :: "string option"
  err_param :: "string option"
  err_raw_message :: "string option"

definition TypeError :: "string \<Rightarrow> js_error" where
  "TypeError msg =
     \<lparr>err_name = ''TypeError'', err_code = None, err_message = Some msg,
      err_type = None, err_param = None, err_raw_message = None\<rparr>"

text \<open>Truthiness, as \<open>!x\<close>, \<open>x || y\<close> and \<open>x ? a : b\<close> test it.\<close>

fun js_truthy :: "jsval \<Rightarrow> bool" where
  "js_truthy None = False"
| "js_truthy (Some JNull) = False"
| "js_truthy (Some (JBool b)) = b"
| "js_truthy (Some (JNum r)) = (r \<noteq> 0)"
| "js_truthy (Some (JStr s)) = (s \<noteq> [])"
| "js_truthy (Some (JArr xs)) = True"
| "js_truthy (Some (JObj kvs)) = True"

definition str_truthy :: "string option \<Rightarrow> bool" where
  "str_truthy s = (case s of None \<Rightarrow> False | Some t \<Rightarrow> t \<noteq> [])"

text \<open>
  Property access \<open>data.k\<close> on a parsed value: it throws a TypeError on \<open>null\<close>, reads the
  property of an object, and is \<open>undefined\<close> on every other value (none of the keys the
  handlers read is a property of a string, number, boolean or array).
\<close>

fun js_get :: "json \<Rightarrow> string \<Rightarrow> js_error + jsval" where
  "js_get JNull k =
     Inl (TypeError (''Cannot read properties of null (reading '' @ [CHR 0x27] @ k @ [CHR 0x27] @ '')''))"
| "js_get (JObj kvs) k = Inr (map_of kvs k)"
| "js_get (JBool b) k = Inr None"
| "js_get (JNum r) k = Inr None"
| "js_get (JStr s) k = Inr None"
| "js_get (JArr xs) k = Inr None"

text \<open>\<open>v || 'literal'\<close> on a value read from the upstream body.\<close>

definition js_or_str :: "jsval \<Rightarrow> string \<Rightarrow> jsval" where
  "js_or_str v d = (if js_truthy v then v else Some (JStr d))"

text \<open>A string inside a template literal; \<open>undefined\<close> prints as the word.\<close>

definition js_str :: "string option \<Rightarrow> string" where
  "js_str s = (case s of None \<Rightarrow> ''undefined'' | Some t \<Rightarrow> t)"

text \<open>\<open>toUpperCase\<close> and \<open>toLowerCase\<close>, on the ASCII letters.\<close>

definition to_upper_char :: "char \<Rightarrow> char" where
  "to_upper_char c =
     (case map_of (zip ''abcdefghijklmnopqrstuvwxyz'' ''ABCDEFGHIJKLMNOPQRSTUVWXYZ'') c of
        Some u \<Rightarrow> u | None \<Rightarrow> c)"

definition to_lower_char :: "char \<Rightarrow> char" where
  "to_lower_char c =
     (case map_of (zip ''ABCDEFGHIJKLMNOPQRSTUVWXYZ'' ''abcdefghijklmnopqrstuvwxyz'') c of
        Some l \<Rightarrow> l | None \<Rightarrow> c)"

definition toUpperCase :: "string \<Rightarrow> string" where
  "toUpperCase s = map to_upper_char s"

definition toLowerCase :: "string \<Rightarrow> string" where
  "toLowerCase s = map to_lower_char s"

text \<open>\<open>origin.replace(/\/$/, '')\<close>: one slash at the very end is removed.\<close>

definition strip_trailing_slash :: "string \<Rightarrow> string" where
  "strip_trailing_slash s = (if s \<noteq> [] \<and> last s = CHR ''/'' then butlast s else s)"

text \<open>\<open>trim()\<close>, on the ASCII white space and line terminators.\<close>

definition is_space :: "char \<Rightarrow> bool" where
  "is_space c = (c \<in> set [CHR '' '', CHR 0x09, CHR 0x0A, CHR 0x0B, CHR 0x0C, CHR 0x0D])"

definition js_trim :: "string \<Rightarrow> string" where
  "js_trim s = rev (dropWhile is_space (rev (dropWhile is_space s)))"

subsection \<open>Numbers\<close>

text \<open>
  A JavaScript number is an IEEE 754 double: a finite value, which is a rational of the form
  \<open>m * 2 ^ e\<close> with \<open>\<bar>m\<bar> < 2 ^ 53\<close> and \<open>- 1074 \<le> e \<le> 971\<close>, negative zero, an infinity or NaN.
  \<open>Fin 0\<close> is positive zero.
\<close>

datatype jsnum = Fin rat | NegZero | PosInf | NegInf | NaN

text \<open>The number of binary digits of a positive integer.\<close>

function bitlen :: "int \<Rightarrow> int" where
  "bitlen a = (if 0 < a then 1 + bitlen (a div 2) else 0)"
  by pat_completeness auto
termination
  by (relation "measure nat") auto

declare bitlen.simps [simp del]

text \<open>The binary exponent of a positive rational: \<open>2 ^ binade x \<le> x < 2 ^ (binade x + 1)\<close>.\<close>

definition binade :: "rat \<Rightarrow> int" where
  "binade x =
     (let d = bitlen (fst (quotient_of x)) - bitlen (snd (quotient_of x))
      in if 2 powi d \<le> x then d else d - 1)"

text \<open>Rounding to the nearest integer, a tie going to the even one.\<close>

definition round_half_even :: "rat \<Rightarrow> int" where
  "round_half_even y =
     (if y - of_int \<lfloor>y\<rfloor> < 1 / 2 then \<lfloor>y\<rfloor>
      else if 1 / 2 < y - of_int \<lfloor>y\<rfloor> then \<lfloor>y\<rfloor> + 1
      else if even \<lfloor>y\<rfloor> then \<lfloor>y\<rfloor> else \<lfloor>y\<rfloor> + 1)"

text \<open>
  The double that an exact result rounds to (round to nearest, ties to even): 53
  significant bits in the binade of the value, the spacing \<open>2 ^ - 1074\<close> below \<open>2 ^ - 1022\<close>, an
  infinity from \<open>2 ^ 1024\<close> on, and a zero that keeps the sign. A value that is a double is its
  own rounding, so this is also the reading of a number literal.
\<close>

definition double_of :: "rat \<Rightarrow> jsnum" where
  "double_of x =
     (if x = 0 then Fin 0
      else
        (let e = max (binade \<bar>x\<bar>) (- 1022);
             m = round_half_even (\<bar>x\<bar> / 2 powi (e - 52))
         in if 1024 \<le> e \<or> (e = 1023 \<and> m = 9007199254740992)
            then (if 0 < x then PosInf else NegInf)
            else if m = 0 then (if 0 < x then Fin 0 else NegZero)
            else Fin ((if 0 < x then of_int m else - of_int m) * 2 powi (e - 52))))"

definition is_zero :: "jsnum \<Rightarrow> bool" where
  "is_zero x = (x = Fin 0 \<or> x = NegZero)"

definition is_inf :: "jsnum \<Rightarrow> bool" where
  "is_inf x = (x = PosInf \<or> x = NegInf)"

fun is_neg :: "jsnum \<Rightarrow> bool" where
  "is_neg (Fin a) = (a < 0)"
| "is_neg NegZero = True"
| "is_neg NegInf = True"
| "is_neg PosInf = False"
| "is_neg NaN = False"

fun js_value :: "jsnum \<Rightarrow> rat" where
  "js_value (Fin a) = a"
| "js_value x = 0"

definition signed_inf :: "bool \<Rightarrow> jsnum" where
  "signed_inf n = (if n then NegInf else PosInf)"

definition signed_zero :: "bool \<Rightarrow> jsnum" where
  "signed_zero n = (if n then NegZero else Fin 0)"

text \<open>\<open>x * y\<close> and \<open>x / y\<close>: the exact result rounded to a double, with the sign rules for
  zeros and infinities.\<close>

definition js_mul :: "jsnum \<Rightarrow> jsnum \<Rightarrow> jsnum" where
  "js_mul x y =
     (if x = NaN \<or> y = NaN then NaN
      else if is_inf x \<or> is_inf y
      then (if is_zero x \<or> is_zero y then NaN else signed_inf (is_neg x \<noteq> is_neg y))
      else if is_zero x \<or> is_zero y then signed_zero (is_neg x \<noteq> is_neg y)
      else double_of (js_value x * js_value y))"

definition js_div :: "jsnum \<Rightarrow> jsnum \<Rightarrow> jsnum" where
  "js_div x y =
     (if x = NaN \<or> y = NaN then NaN
      else if is_inf x then (if is_inf y then NaN else signed_inf (is_neg x \<noteq> is_neg y))
      else if is_inf y then signed_zero (is_neg x \<noteq> is_neg y)
      else if is_zero y then (if is_zero x then NaN else signed_inf (is_neg x \<noteq> is_neg y))
      else if is_zero x then signed_zero (is_neg x \<noteq> is_neg y)
      else double_of (js_value x / js_value y))"

text \<open>\<open>Math.round\<close>: the nearest integer, a half going up; a result of zero from a negative
  argument is negative zero.\<close>

fun Math_round :: "jsnum \<Rightarrow> jsnum" where
  "Math_round (Fin a) =
     (if \<lfloor>a + 1 / 2\<rfloor> = 0 \<and> a < 0 then NegZero else Fin (of_int \<lfloor>a + 1 / 2\<rfloor>))"
| "Math_round x = x"

text \<open>A number that may be \<open>undefined\<close>: as an operand it is NaN; it is truthy unless it is
  \<open>undefined\<close>, a zero or NaN; \<open>n || d\<close>; and \<open>x > 0\<close>.\<close>

definition to_num :: "jsnum option \<Rightarrow> jsnum" where
  "to_num n = (case n of None \<Rightarrow> NaN | Some x \<Rightarrow> x)"

definition num_truthy :: "jsnum option \<Rightarrow> bool" where
  "num_truthy n = (case n of None \<Rightarrow> False | Some x \<Rightarrow> \<not> is_zero x \<and> x \<noteq> NaN)"

definition num_or :: "jsnum option \<Rightarrow> jsnum \<Rightarrow> jsnum" where
  "num_or n d = (if num_truthy n then to_num n else d)"

fun js_gt_zero :: "jsnum \<Rightarrow> bool" where
  "js_gt_zero (Fin a) = (0 < a)"
| "js_gt_zero PosInf = True"
| "js_gt_zero NegZero = False"
| "js_gt_zero NegInf = False"
| "js_gt_zero NaN = False"

section \<open>Requests, responses and the environment\<close>

text \<open>
  The form data of a request. Every field is absent (\<open>None\<close>, the \<open>undefined\<close> of the
  handlers) or a value of the type the handlers use it at: a number, a string, or an object
  with the fields below.
\<close>

record pricing =
  total :: "jsnum option"
  currency :: "string option"
  subtotal :: "jsnum option"
  shipping :: "jsnum option"
  insurance :: "jsnum option"

record product =
  name :: "string option"
  specs :: "string option"
  quantity :: "jsnum option"
  basePrice :: "jsnum option"
  imageUrl :: "string option"

record customer =
  firstName :: "string option"
  lastName :: "string option"
  email :: "string option"
  phone :: "string option"

record shipping_choice =
  ship_method :: "string option"

record form_data =
  fd_pricing :: "pricing option"
  fd_product :: "product option"
  fd_customer :: "customer option"
  orderRef :: "string option"
  fd_shipping :: "shipping_choice option"

record req_body =
  formData :: "form_data option"
  paymentType :: "string option"

text \<open>
  \<open>req.body\<close> is \<open>None\<close> when the request carries no parsed body; \<open>hdr_origin\<close> and
  \<open>hdr_referer\<close> are \<open>req.headers.origin\<close> and \<open>req.headers.referer\<close>.
\<close>

record request =
  req_method :: string
  body :: "req_body option"
  hdr_origin :: "string option"
  hdr_referer :: "string option"

record env =
  STRIPE_SECRET_KEY :: "string option"
  NOWPAYMENTS_API_KEY :: "string option"
  NODE_ENV :: "string option"

text \<open>
  The response object \<open>res\<close>: \<open>setHeader\<close> stores a header, \<open>status(n)\<close> sets the code,
  \<open>end()\<close> and \<open>json(obj)\<close> send the body. \<open>json\<close> receives the object as the handler
  builds it, its \<open>undefined\<close> properties included.
\<close>

datatype sent = Unsent | Ended | Json "(string \<times> jsval) list"

record res =
  headers :: "string \<rightharpoonup> string"
  statusCode :: nat
  payload :: sent

definition new_res :: res where
  "new_res = \<lparr>headers = Map.empty, statusCode = 200, payload = Unsent\<rparr>"

definition setHeader :: "string \<Rightarrow> string \<Rightarrow> res \<Rightarrow> res" where
  "setHeader k v r = r\<lparr>headers := (headers r)(k \<mapsto> v)\<rparr>"

definition status_end :: "nat \<Rightarrow> res \<Rightarrow> res" where
  "status_end n r = r\<lparr>statusCode := n, payload := Ended\<rparr>"

definition status_json :: "nat \<Rightarrow> (string \<times> jsval) list \<Rightarrow> res \<Rightarrow> res" where
  "status_json n obj r = r\<lparr>statusCode := n, payload := Json obj\<rparr>"

definition set_cors :: "res \<Rightarrow> res" where
  "set_cors r =
     setHeader ''Access-Control-Allow-Headers'' ''Content-Type''
       (setHeader ''Access-Control-Allow-Methods'' ''POST, OPTIONS''
          (setHeader ''Access-Control-Allow-Origin'' ''*'' r))"

text \<open>\<open>s || d\<close> on a string that may be \<open>undefined\<close>.\<close>

definition str_or :: "string option \<Rightarrow> string \<Rightarrow> string" where
  "str_or s d = (case s of None \<Rightarrow> d | Some t \<Rightarrow> if t = [] then d else t)"

text \<open>\<open>req.headers.origin || req.headers.referer || 'https://weselliphones.com'\<close>, without
  a trailing slash.\<close>

definition baseUrl :: "request \<Rightarrow> string" where
  "baseUrl req =
     strip_trailing_slash
       (str_or (hdr_origin req) (str_or (hdr_referer req) ''https://weselliphones.com''))"

section \<open>The card/ACH handler (api/create-stripe-session.js)\<close>

record product_data =
  pd_name :: "string option"
  pd_description :: string
  pd_images :: "string list option"

record price_data =
  pr_currency :: string
  pr_product_data :: product_data
  unit_amount :: jsnum

record line_item =
  li_price_data :: price_data
  li_quantity :: jsnum

record metadata =
  md_orderRef :: "string option"
  md_customerName :: string
  md_phone :: "string option"
  md_shippingMethod :: string
  md_insurance :: string

record us_bank_account =
  permissions :: "string list"
  verification_method :: string

record session_config =
  mode :: string
  line_items :: "line_item list"
  customer_email :: "string option"
  sc_metadata :: metadata
  sc_success_url :: string
  sc_cancel_url :: string
  payment_method_types :: "string list"
  payment_method_options :: "us_bank_account option"
  allowed_countries :: "string list"

record stripe_session =
  session_url :: "string option"
  session_id :: "string option"

text \<open>\<open>formData.customer?.f\<close> and \<open>formData.shipping?.method\<close>.\<close>

definition customer_field :: "(customer \<Rightarrow> string option) \<Rightarrow> form_data \<Rightarrow> string option" where
  "customer_field f fd = (case fd_customer fd of None \<Rightarrow> None | Some c \<Rightarrow> f c)"

definition shipping_method :: "form_data \<Rightarrow> string option" where
  "shipping_method fd = (case fd_shipping fd of None \<Rightarrow> None | Some s \<Rightarrow> ship_method s)"

text \<open>Line 33: \<open>formData.pricing.subtotal || (formData.product.basePrice * formData.product.quantity)\<close>.\<close>

definition subtotal_used :: "pricing \<Rightarrow> product \<Rightarrow> jsnum" where
  "subtotal_used pr pd =
     (if num_truthy (subtotal pr) then to_num (subtotal pr)
      else js_mul (to_num (basePrice pd)) (to_num (quantity pd)))"

text \<open>Line 34: \<open>Math.round((subtotal / formData.product.quantity) * 100)\<close>.\<close>

definition perItemPrice :: "pricing \<Rightarrow> product \<Rightarrow> jsnum" where
  "perItemPrice pr pd =
     Math_round (js_mul (js_div (subtotal_used pr pd) (to_num (quantity pd))) (Fin 100))"

definition product_item :: "string \<Rightarrow> pricing \<Rightarrow> product \<Rightarrow> line_item" where
  "product_item cur pr pd =
     \<lparr>li_price_data =
        \<lparr>pr_currency = toLowerCase cur,
         pr_product_data =
           \<lparr>pd_name = name pd,
            pd_description = str_or (specs pd) [],
            pd_images = Some (case imageUrl pd of
                                None \<Rightarrow> []
                              | Some u \<Rightarrow> if u = [] then [] else [u])\<rparr>,
         unit_amount = perItemPrice pr pd\<rparr>,
      li_quantity = num_or (quantity pd) (Fin 1)\<rparr>"

definition shipping_item :: "string \<Rightarrow> form_data \<Rightarrow> jsnum \<Rightarrow> line_item" where
  "shipping_item cur fd s =
     \<lparr>li_price_data =
        \<lparr>pr_currency = toLowerCase cur,
         pr_product_data =
           \<lparr>pd_name = Some (if shipping_method fd = Some ''express''
                             then ''Express Shipping (2-5 days)'' else ''Standard Shipping''),
            pd_description = (if shipping_method fd = Some ''express''
                              then ''Fast delivery'' else ''Standard delivery''),
            pd_images = None\<rparr>,
         unit_amount = Math_round (js_mul s (Fin 100))\<rparr>,
      li_quantity = Fin 1\<rparr>"

definition insurance_item :: "string \<Rightarrow> jsnum \<Rightarrow> line_item" where
  "insurance_item cur i =
     \<lparr>li_price_data =
        \<lparr>pr_currency = toLowerCase cur,
         pr_product_data =
           \<lparr>pd_name = Some ''Order Insurance'',
            pd_description = ''Protection for your order'',
            pd_images = None\<rparr>,
         unit_amount = Math_round (js_mul i (Fin 100))\<rparr>,
      li_quantity = Fin 1\<rparr>"

text \<open>Lines 37 to 80: the product item, then shipping and insurance when the amount is
  truthy and positive.\<close>

definition build_line_items :: "string \<Rightarrow> form_data \<Rightarrow> pricing \<Rightarrow> product \<Rightarrow> line_item list" where
  "build_line_items cur fd pr pd =
     [product_item cur pr pd]
     @ (if num_truthy (shipping pr) \<and> js_gt_zero (to_num (shipping pr))
        then [shipping_item cur fd (to_num (shipping pr))] else [])
     @ (if num_truthy (insurance pr) \<and> js_gt_zero (to_num (insurance pr))
        then [insurance_item cur (to_num (insurance pr))] else [])"

text \<open>Lines 83 to 124: the session configuration, for \<open>'ach'\<close> and for every other
  payment type.\<close>

definition build_session_config ::
    "request \<Rightarrow> string \<Rightarrow> form_data \<Rightarrow> pricing \<Rightarrow> product \<Rightarrow> bool \<Rightarrow> session_config" where
  "build_session_config req cur fd pr pd ach =
     \<lparr>mode = ''payment'',
      line_items = build_line_items cur fd pr pd,
      customer_email = customer_field email fd,
      sc_metadata =
        \<lparr>md_orderRef = orderRef fd,
         md_customerName =
           js_str (customer_field firstName fd) @ '' '' @ js_str (customer_field lastName fd),
         md_phone = customer_field phone fd,
         md_shippingMethod = str_or (shipping_method fd) ''standard'',
         md_insurance = (if num_truthy (insurance pr) then ''yes'' else ''no'')\<rparr>,
      sc_success_url =
        baseUrl req @ ''/success.html?session_id={CHECKOUT_SESSION_ID}&ref='' @ js_str (orderRef fd),
      sc_cancel_url = baseUrl req @ ''/payment.html'',
      payment_method_types = (if ach then [''us_bank_account''] else [''card'']),
      payment_method_options =
        (if ach
         then Some \<lparr>permissions = [''payment_method'', ''balances''],
                    verification_method = ''automatic''\<rparr>
         else None),
      allowed_countries =
        [''US'', ''CA'', ''GB'', ''AU'', ''PL'', ''FR'', ''ES'', ''DE'', ''IT'', ''NL'', ''BE'',
         ''AT'', ''IE'', ''PT'']\<rparr>"

text \<open>Line 18: \<open>paymentType = 'card'\<close>, the default taken when the property is \<open>undefined\<close>.\<close>

definition payment_type :: "req_body \<Rightarrow> string" where
  "payment_type b = (case paymentType b of None \<Rightarrow> ''card'' | Some p \<Rightarrow> p)"

text \<open>Lines 127 to 132: the awaited call rejects with an error, or resolves to the session
  whose url and id are sent back.\<close>

definition stripe_after_create :: "js_error + stripe_session \<Rightarrow> res \<Rightarrow> js_error + res" where
  "stripe_after_create outcome r =
     (case outcome of
        Inl err \<Rightarrow> Inl err
      | Inr session \<Rightarrow>
          Inr (status_json 200
                 [(''url'', map_option JStr (session_url session)),
                  (''sessionId'', map_option JStr (session_id session))] r))"

text \<open>
  The body of the \<open>try\<close> block. The result is the list of calls made to
  \<open>stripe.checkout.sessions.create\<close> and either the thrown error or the response sent.
  \<open>create\<close> is the provider: it rejects with an error or resolves to a session.
\<close>

definition stripe_try ::
    "env \<Rightarrow> (session_config \<Rightarrow> js_error + stripe_session) \<Rightarrow> request \<Rightarrow> res
       \<Rightarrow> session_config list \<times> (js_error + res)" where
  "stripe_try e create req r =
     (case body req of
        None \<Rightarrow>
          ([], Inl (TypeError ''Cannot destructure property 'formData' of 'req.body' as it is undefined.''))
      | Some b \<Rightarrow>
     (case formData b of
        None \<Rightarrow> ([], Inr (status_json 400 [(''error'', Some (JStr ''Missing required form data''))] r))
      | Some fd \<Rightarrow>
     (case fd_pricing fd of
        None \<Rightarrow> ([], Inr (status_json 400 [(''error'', Some (JStr ''Missing required form data''))] r))
      | Some pr \<Rightarrow>
     (case fd_product fd of
        None \<Rightarrow> ([], Inr (status_json 400 [(''error'', Some (JStr ''Missing required form data''))] r))
      | Some pd \<Rightarrow>
     if \<not> str_truthy (STRIPE_SECRET_KEY e)
     then ([], Inr (status_json 500
                      [(''error'', Some (JStr ''Payment system configuration error''))] r))
     else
     (case currency pr of
        None \<Rightarrow>
          ([], Inl (TypeError ''Cannot read properties of undefined (reading 'toLowerCase')''))
      | Some cur \<Rightarrow>
     if payment_type b = ''ach'' \<and> toUpperCase cur \<noteq> ''USD''
     then ([], Inr (status_json 400
                      [(''error'', Some (JStr ''ACH payments only support USD currency.''))] r))
     else
       (let sessionConfig =
              build_session_config req cur fd pr pd (payment_type b = ''ach'')
        in ([sessionConfig], stripe_after_create (create sessionConfig) r)))))))"

text \<open>Lines 134 to 143: every thrown error is answered with 400.\<close>

definition stripe_catch :: "js_error \<Rightarrow> res \<Rightarrow> res" where
  "stripe_catch err r =
     status_json 400
       [(''error'', Some (JStr (str_or (err_message err) ''Payment processing failed''))),
        (''type'', map_option JStr (err_type err)),
        (''param'', map_option JStr (err_param err)),
        (''details'', map_option JStr (err_raw_message err))] r"

definition stripe_handler ::
    "env \<Rightarrow> (session_config \<Rightarrow> js_error + stripe_session) \<Rightarrow> request
       \<Rightarrow> res \<times> session_config list" where
  "stripe_handler e create req =
     (let r = set_cors new_res in
      if req_method req = ''OPTIONS'' then (status_end 200 r, [])
      else if req_method req \<noteq> ''POST''
      then (status_json 405 [(''error'', Some (JStr ''Method not allowed''))] r, [])
      else (case stripe_try e create req r of
              (calls, Inr r') \<Rightarrow> (r', calls)
            | (calls, Inl err) \<Rightarrow> (stripe_catch err r, calls)))"

section \<open>The crypto handler (the NOWPayments invoice endpoint)\<close>

record invoice_data =
  price_amount :: "jsnum option"
  price_currency :: string
  order_id :: "string option"
  order_description :: string
  ipn_callback_url :: string
  success_url :: string
  cancel_url :: string
  is_fixed_rate :: bool
  is_fee_paid_by_user :: bool

text \<open>The one outbound call: a POST of the invoice to the provider, with the API key.\<close>

record fetch_request =
  fetch_url :: string
  fetch_method :: string
  x_api_key :: string
  content_type :: string
  fetch_body :: invoice_data

text \<open>
  What the provider answers: the status code and the result of \<open>JSON.parse\<close> on the
  response text, \<open>None\<close> when parsing throws. \<open>FetchThrows\<close> is a rejected \<open>fetch\<close> (or a
  rejected \<open>response.text()\<close>).
\<close>

record upstream_response =
  up_status :: nat
  up_parsed :: "json option"

datatype fetch_outcome = FetchThrows js_error | FetchResponse upstream_response

text \<open>\<open>response.ok\<close>: the status is in the range 200 to 299.\<close>

definition response_ok :: "upstream_response \<Rightarrow> bool" where
  "response_ok rsp = (200 \<le> up_status rsp \<and> up_status rsp \<le> 299)"

text \<open>Lines 36 to 47.\<close>

definition build_invoice_data :: "request \<Rightarrow> string \<Rightarrow> form_data \<Rightarrow> pricing \<Rightarrow> product \<Rightarrow> invoice_data" where
  "build_invoice_data req cur fd pr pd =
     \<lparr>price_amount = total pr,
      price_currency = toLowerCase cur,
      order_id = orderRef fd,
      order_description =
        js_trim (js_str (name pd) @ '' '' @
                 (if str_truthy (specs pd) then ''- '' @ js_str (specs pd) else [])),
      ipn_callback_url = baseUrl req @ ''/api/crypto-webhook'',
      success_url = baseUrl req @ ''/success.html?ref='' @ js_str (orderRef fd),
      cancel_url = baseUrl req @ ''/payment.html'',
      is_fixed_rate = True,
      is_fee_paid_by_user = False\<rparr>"

text \<open>Sequencing of steps that may throw: the first error ends the block.\<close>

definition and_then :: "js_error + 'a \<Rightarrow> ('a \<Rightarrow> js_error + 'b) \<Rightarrow> js_error + 'b" where
  "and_then m f = (case m of Inl err \<Rightarrow> Inl err | Inr x \<Rightarrow> f x)"

text \<open>Lines 78 to 128: the answer to a response whose text parsed to \<open>data\<close>. Reading a
  property of \<open>data\<close> may throw.\<close>

definition crypto_respond :: "upstream_response \<Rightarrow> json \<Rightarrow> res \<Rightarrow> js_error + res" where
  "crypto_respond rsp data r =
     (if \<not> response_ok rsp then
        (if up_status rsp = 401 then
           Inr (status_json 500
                  [(''error'',
                    Some (JStr ''Payment system authentication failed. Please contact support.''))] r)
         else if up_status rsp = 400 then
           and_then (js_get data ''message'') (\<lambda>m.
             Inr (status_json 400
                    [(''error'', Some (JStr ''Invalid payment details. Please check your information.'')),
                     (''details'', js_or_str m ''Invalid request parameters'')] r))
         else
           and_then (js_get data ''message'') (\<lambda>m.
             Inr (status_json (up_status rsp)
                    [(''error'', Some (JStr ''Failed to create crypto payment'')),
                     (''details'', js_or_str m ''Please try again or contact support'')] r)))
      else
        and_then (js_get data ''invoice_url'') (\<lambda>u.
          if \<not> js_truthy u
          then Inr (status_json 500 [(''error'', Some (JStr ''Invalid payment response received''))] r)
          else
            and_then (js_get data ''id'') (\<lambda>i.
            and_then (js_get data ''order_id'') (\<lambda>oid.
            and_then (js_get data ''created_at'') (\<lambda>cr.
            and_then (js_get data ''pay_address'') (\<lambda>pa.
            and_then (js_get data ''pay_amount'') (\<lambda>pm.
            and_then (js_get data ''pay_currency'') (\<lambda>pc.
              Inr (status_json 200
                     [(''invoice_url'', u),
                      (''invoice_id'', i),
                      (''order_id'', oid),
                      (''created_at'', cr),
                      (''pay_address'', pa),
                      (''pay_amount'', pm),
                      (''pay_currency'', pc)] r)))))))))"

text \<open>Lines 56 to 76: the awaited call rejects with an error, or resolves to a response
  whose text is parsed; a text that does not parse is answered with 500.\<close>

definition crypto_after_fetch :: "fetch_outcome \<Rightarrow> res \<Rightarrow> js_error + res" where
  "crypto_after_fetch outcome r =
     (case outcome of
        FetchThrows err \<Rightarrow> Inl err
      | FetchResponse rsp \<Rightarrow>
          (case up_parsed rsp of
             None \<Rightarrow>
               Inr (status_json 500
                      [(''error'', Some (JStr ''Invalid response from payment processor''))] r)
           | Some data \<Rightarrow> crypto_respond rsp data r))"

text \<open>
  The body of the \<open>try\<close> block: the calls made to \<open>fetch\<close> and either the thrown error or
  the response sent. \<open>fetch\<close> is the provider.
\<close>

definition crypto_try ::
    "env \<Rightarrow> (fetch_request \<Rightarrow> fetch_outcome) \<Rightarrow> request \<Rightarrow> res
       \<Rightarrow> fetch_request list \<times> (js_error + res)" where
  "crypto_try e fetch req r =
     (case body req of
        None \<Rightarrow>
          ([], Inl (TypeError ''Cannot destructure property 'formData' of 'req.body' as it is undefined.''))
      | Some b \<Rightarrow>
     (case formData b of
        None \<Rightarrow> ([], Inr (status_json 400 [(''error'', Some (JStr ''Missing required form data''))] r))
      | Some fd \<Rightarrow>
     (case fd_pricing fd of
        None \<Rightarrow> ([], Inr (status_json 400 [(''error'', Some (JStr ''Missing required form data''))] r))
      | Some pr \<Rightarrow>
     (case fd_product fd of
        None \<Rightarrow> ([], Inr (status_json 400 [(''error'', Some (JStr ''Missing required form data''))] r))
      | Some pd \<Rightarrow>
     (case fd_customer fd of
        None \<Rightarrow> ([], Inr (status_json 400 [(''error'', Some (JStr ''Missing required form data''))] r))
      | Some cu \<Rightarrow>
     (case NOWPAYMENTS_API_KEY e of
        None \<Rightarrow>
          ([], Inr (status_json 500 [(''error'', Some (JStr ''Payment system configuration error''))] r))
      | Some key \<Rightarrow>
     if key = []
     then ([], Inr (status_json 500 [(''error'', Some (JStr ''Payment system configuration error''))] r))
     else
     (case currency pr of
        None \<Rightarrow>
          ([], Inl (TypeError ''Cannot read properties of undefined (reading 'toLowerCase')''))
      | Some cur \<Rightarrow>
       (let call =
              \<lparr>fetch_url = ''https://api.nowpayments.io/v1/invoice'',
               fetch_method = ''POST'',
               x_api_key = key,
               content_type = ''application/json'',
               fetch_body = build_invoice_data req cur fd pr pd\<rparr>
        in ([call], crypto_after_fetch (fetch call) r)))))))))"

text \<open>Lines 130 to 149: network errors are answered with 503, every other error with 500.\<close>

definition crypto_catch :: "env \<Rightarrow> js_error \<Rightarrow> res \<Rightarrow> res" where
  "crypto_catch e err r =
     (if err_name err = ''FetchError'' \<or> err_code err = Some ''ENOTFOUND''
      then status_json 503
             [(''error'', Some (JStr ''Payment service temporarily unavailable. Please try again.''))] r
      else if err_code err = Some ''ETIMEDOUT'' \<or> err_code err = Some ''ECONNREFUSED''
      then status_json 503
             [(''error'',
               Some (JStr ''Connection timeout. Please check your internet connection and try again.''))] r
      else status_json 500
             [(''error'', Some (JStr ''Failed to process crypto payment. Please try again.'')),
              (''details'',
               if NODE_ENV e = Some ''development'' then map_option JStr (err_message err) else None)] r)"

definition crypto_handler ::
    "env \<Rightarrow> (fetch_request \<Rightarrow> fetch_outcome) \<Rightarrow> request \<Rightarrow> res \<times> fetch_request list" where
  "crypto_handler e fetch req =
     (let r = set_cors new_res in
      if req_method req = ''OPTIONS'' then (status_end 200 r, [])
      else if req_method req \<noteq> ''POST''
      then (status_json 405 [(''error'', Some (JStr ''Method not allowed''))] r, [])
      else (case crypto_try e fetch req r of
              (calls, Inr r') \<Rightarrow> (r', calls)
            | (calls, Inl err) \<Rightarrow> (crypto_catch e err r, calls)))"

section \<open>Notions used by the properties\<close>

text \<open>An error response is one whose JSON body has an \<open>error\<close> property.\<close>

definition is_error_response :: "res \<Rightarrow> bool" where
  "is_error_response r =
     (case payload r of
        Json obj \<Rightarrow> map_of obj ''error'' \<noteq> None
      | Ended \<Rightarrow> False
      | Unsent \<Rightarrow> False)"

text \<open>The property \<open>k\<close> of a parsed body as the provider sent it: \<open>undefined\<close> when the body
  is not an object or has no such property.\<close>

definition json_prop :: "json \<Rightarrow> string \<Rightarrow> jsval" where
  "json_prop data k = (case data of JObj kvs \<Rightarrow> map_of kvs k | _ \<Rightarrow> None)"

text \<open>A property of the JSON body sent to the client; \<open>None\<close> when nothing of that name was
  sent.\<close>

definition sent_prop :: "res \<Rightarrow> string \<Rightarrow> jsval" where
  "sent_prop r k =
     (case payload r of
        Json obj \<Rightarrow> (case map_of obj k of None \<Rightarrow> None | Some v \<Rightarrow> v)
      | Ended \<Rightarrow> None
      | Unsent \<Rightarrow> None)"

text \<open>The error classes of a failed outbound call: DNS resolution, connection refused and
  timeout, as the codes Node.js gives them, and the \<open>FetchError\<close> of the fetch library.\<close>

definition network_failure :: "js_error \<Rightarrow> bool" where
  "network_failure err =
     (err_name err = ''FetchError'' \<or> err_code err = Some ''ENOTFOUND''
      \<or> err_code err = Some ''ECONNREFUSED'' \<or> err_code err = Some ''ETIMEDOUT'')"

text \<open>
  The unit amount \<open>u\<close> is a whole number and differs from a hundred times the exact amount
  \<open>x\<close> by at most a half and the \<open>2 ^ - 51\<close>th part of it, which bounds the rounding of the
  division and of the multiplication.
\<close>

definition cents_of :: "rat \<Rightarrow> jsnum \<Rightarrow> bool" where
  "cents_of x u =
     (case u of
        Fin v \<Rightarrow> of_int \<lfloor>v\<rfloor> = v \<and> \<bar>v - x * 100\<bar> \<le> 1 / 2 + x * 100 / 2 ^ 51
      | NegZero \<Rightarrow> False
      | PosInf \<Rightarrow> False
      | NegInf \<Rightarrow> False
      | NaN \<Rightarrow> False)"

section \<open>Sample requests and providers\<close>

definition sample_pricing :: pricing where
  "sample_pricing =
     \<lparr>total = Some (Fin 1029), currency = Some ''usd'', subtotal = Some (Fin 999),
      shipping = Some (Fin 20), insurance = Some (Fin 10)\<rparr>"

definition sample_product :: product where
  "sample_product =
     \<lparr>name = Some ''iPhone 15'', specs = Some ''128GB'', quantity = Some (Fin 2),
      basePrice = Some (Fin 500), imageUrl = None\<rparr>"

definition sample_customer :: customer where
  "sample_customer =
     \<lparr>firstName = Some ''Ada'', lastName = Some ''Byron'', email = Some ''ada@example.com'',
      phone = None\<rparr>"

definition sample_form :: form_data where
  "sample_form =
     \<lparr>fd_pricing = Some sample_pricing, fd_product = Some sample_product,
      fd_customer = Some sample_customer, orderRef = Some ''WSI-1001'',
      fd_shipping = Some \<lparr>ship_method = Some ''express''\<rparr>\<rparr>"

definition post_request :: "form_data option \<Rightarrow> string option \<Rightarrow> request" where
  "post_request fd pt =
     \<lparr>req_method = ''POST'', body = Some \<lparr>formData = fd, paymentType = pt\<rparr>,
      hdr_origin = Some ''https://weselliphones.com/'', hdr_referer = None\<rparr>"

definition get_request :: request where
  "get_request =
     \<lparr>req_method = ''GET'', body = None, hdr_origin = None, hdr_referer = None\<rparr>"

definition configured_env :: env where
  "configured_env =
     \<lparr>STRIPE_SECRET_KEY = Some ''sk_test_1'', NOWPAYMENTS_API_KEY = Some ''np_key_1'',
      NODE_ENV = Some ''production''\<rparr>"

definition unconfigured_env :: env where
  "unconfigured_env =
     \<lparr>STRIPE_SECRET_KEY = None, NOWPAYMENTS_API_KEY = None, NODE_ENV = Some ''production''\<rparr>"

definition system_error :: "string \<Rightarrow> js_error" where
  "system_error code =
     \<lparr>err_name = ''Error'', err_code = Some code, err_message = Some (''connect '' @ code),
      err_type = None, err_param = None, err_raw_message = None\<rparr>"

definition fetch_fails :: "string \<Rightarrow> fetch_request \<Rightarrow> fetch_outcome" where
  "fetch_fails code call = FetchThrows (system_error code)"

definition fetch_answers :: "nat \<Rightarrow> json \<Rightarrow> fetch_request \<Rightarrow> fetch_outcome" where
  "fetch_answers st data call = FetchResponse \<lparr>up_status = st, up_parsed = Some data\<rparr>"

definition create_fails :: "string \<Rightarrow> session_config \<Rightarrow> js_error + stripe_session" where
  "create_fails code cfg = Inl (system_error code)"

definition create_succeeds :: "session_config \<Rightarrow> js_error + stripe_session" where
  "create_succeeds cfg =
     Inr \<lparr>session_url = Some ''https://checkout.stripe.com/c/pay/cs_test_1'',
          session_id = Some ''cs_test_1''\<rparr>"

definition sample_invoice :: json where
  "sample_invoice =
     JObj [(''id'', JStr ''4522625843''), (''order_id'', JStr ''WSI-1001''),
           (''invoice_url'', JStr ''https://nowpayments.io/payment/?iid=4522625843''),
           (''created_at'', JStr ''2024-01-01T00:00:00.000Z'')]"

definition sample_request :: request where
  "sample_request = post_request (Some sample_form) None"

text \<open>The calls that \<open>sample_request\<close> leads to when the credentials are configured.\<close>

definition sample_fetch_request :: fetch_request where
  "sample_fetch_request =
     \<lparr>fetch_url = ''https://api.nowpayments.io/v1/invoice'',
      fetch_method = ''POST'',
      x_api_key = ''np_key_1'',
      content_type = ''application/json'',
      fetch_body = build_invoice_data sample_request ''usd'' sample_form sample_pricing sample_product\<rparr>"

definition sample_session_config :: session_config where
  "sample_session_config =
     build_session_config sample_request ''usd'' sample_form sample_pricing sample_product False"

text \<open>Variations of the sample form: a currency other than USD, a subtotal of zero, no
  customer, and amounts whose cents are not exact in binary (a subtotal of 23 for 40 pieces,
  a shipping amount of 0.015).\<close>

definition euro_form :: form_data where
  "euro_form = sample_form\<lparr>fd_pricing := Some (sample_pricing\<lparr>currency := Some ''eur''\<rparr>)\<rparr>"

definition zero_subtotal_form :: form_data where
  "zero_subtotal_form =
     sample_form\<lparr>fd_pricing := Some (sample_pricing\<lparr>subtotal := Some (Fin 0)\<rparr>)\<rparr>"

definition anonymous_form :: form_data where
  "anonymous_form = sample_form\<lparr>fd_customer := None\<rparr>"

definition inexact_pricing :: pricing where
  "inexact_pricing =
     \<lparr>total = Some (Fin 33), currency = Some ''usd'', subtotal = Some (Fin 23),
      shipping = Some (double_of (3 / 200)), insurance = Some (Fin 10)\<rparr>"

definition inexact_product :: product where
  "inexact_product = sample_product\<lparr>quantity := Some (Fin 40)\<rparr>"

definition inexact_form :: form_data where
  "inexact_form =
     sample_form\<lparr>fd_pricing := Some inexact_pricing, fd_product := Some inexact_product\<rparr>"

definition inexact_request :: request where
  "inexact_request = post_request (Some inexact_form) None"

definition inexact_session_config :: session_config where
  "inexact_session_config =
     build_session_config inexact_request ''usd'' inexact_form inexact_pricing inexact_product False"

text \<open>A POST request with no body: \<open>req.body\<close> is \<open>undefined\<close>.\<close>

definition bodyless_post :: request where
  "bodyless_post =
     \<lparr>req_method = ''POST'', body = None, hdr_origin = None, hdr_referer = None\<rparr>"

section \<open>Arithmetic of doubles\<close>

lemma bitlen_bounds:
  "0 < a \<Longrightarrow> 1 \<le> bitlen a \<and> 2 ^ nat (bitlen a - 1) \<le> a \<and> a < 2 ^ nat (bitlen a)"
proof (induction a rule: bitlen.induct)
  case (1 a)
  show ?case
  proof (cases "a = 1")
    case True
    then show ?thesis by (simp add: bitlen.simps [of 1] bitlen.simps [of 0])
  next
    case False
    with "1.prems" have h: "0 < a div 2" by simp
    from "1.IH" [OF "1.prems" h]
    have ih: "1 \<le> bitlen (a div 2)" "2 ^ nat (bitlen (a div 2) - 1) \<le> a div 2"
      "a div 2 < 2 ^ nat (bitlen (a div 2))" by simp_all
    have b: "bitlen a = 1 + bitlen (a div 2)" using "1.prems" by (simp add: bitlen.simps [of a])
    have n1: "nat (bitlen a - 1) = Suc (nat (bitlen (a div 2) - 1))" using ih(1) b by simp
    have n2: "nat (bitlen a) = Suc (nat (bitlen (a div 2)))" using ih(1) b by simp
    have e1: "(2::int) ^ nat (bitlen a - 1) = 2 * 2 ^ nat (bitlen (a div 2) - 1)"
      by (simp only: n1 power_Suc)
    have e2: "(2::int) ^ nat (bitlen a) = 2 * 2 ^ nat (bitlen (a div 2))"
      by (simp only: n2 power_Suc)
    have "2 * 2 ^ nat (bitlen (a div 2) - 1) \<le> a" using ih(2) by linarith
    then have lo: "2 ^ nat (bitlen a - 1) \<le> a" by (simp only: e1)
    have "a < 2 * 2 ^ nat (bitlen (a div 2))" using ih(3) by linarith
    then have up: "a < 2 ^ nat (bitlen a)" by (simp only: e2)
    have "1 \<le> bitlen a" using b ih(1) by linarith
    with lo up show ?thesis by blast
  qed
qed

lemma binade_bounds:
  assumes "0 < x"
  shows "2 powi binade x \<le> x \<and> x < 2 powi (binade x + 1)"
proof -
  obtain a b where q: "quotient_of x = (a, b)" by (cases "quotient_of x")
  then have b: "0 < b" and x: "x = of_int a / of_int b"
    using quotient_of_denom_pos quotient_of_div by blast+
  with assms have a: "0 < a" by (simp add: zero_less_divide_iff)
  define d where "d = bitlen a - bitlen b"
  from bitlen_bounds [OF a] bitlen_bounds [OF b]
  have la: "1 \<le> bitlen a" "2 ^ nat (bitlen a - 1) \<le> a" "a < 2 ^ nat (bitlen a)"
    and lb: "1 \<le> bitlen b" "2 ^ nat (bitlen b - 1) \<le> b" "b < 2 ^ nat (bitlen b)" by simp_all
  have pa: "(2::rat) powi (bitlen a - 1) \<le> of_int a" "of_int a < (2::rat) powi bitlen a"
  proof -
    have "(of_int (2 ^ nat (bitlen a - 1)) :: rat) \<le> of_int a" using la(2) by (simp only: of_int_le_iff)
    then show "(2::rat) powi (bitlen a - 1) \<le> of_int a" using la(1) by (simp add: power_int_def)
    have "(of_int a :: rat) < of_int (2 ^ nat (bitlen a))" using la(3) by (simp only: of_int_less_iff)
    then show "of_int a < (2::rat) powi bitlen a" using la(1) by (simp add: power_int_def)
  qed
  have pb: "(2::rat) powi (bitlen b - 1) \<le> of_int b" "of_int b < (2::rat) powi bitlen b"
  proof -
    have "(of_int (2 ^ nat (bitlen b - 1)) :: rat) \<le> of_int b" using lb(2) by (simp only: of_int_le_iff)
    then show "(2::rat) powi (bitlen b - 1) \<le> of_int b" using lb(1) by (simp add: power_int_def)
    have "(of_int b :: rat) < of_int (2 ^ nat (bitlen b))" using lb(3) by (simp only: of_int_less_iff)
    then show "of_int b < (2::rat) powi bitlen b" using lb(1) by (simp add: power_int_def)
  qed
  have bpos: "(0::rat) < of_int b" using b by simp
  have up: "x < 2 powi (d + 1)"
  proof -
    have "of_int a < (2::rat) powi (d + 1) * 2 powi (bitlen b - 1)"
      using pa(2) by (simp add: d_def power_int_add [symmetric])
    also have "\<dots> \<le> 2 powi (d + 1) * of_int b"
      using pb(1) by (simp add: mult_left_mono)
    finally show ?thesis using bpos by (simp add: x pos_divide_less_eq)
  qed
  have lo: "2 powi (d - 1) \<le> x"
  proof -
    have "(2::rat) powi (d - 1) * of_int b \<le> 2 powi (d - 1) * 2 powi bitlen b"
      using pb(2) by (simp add: mult_left_mono)
    also have "\<dots> = 2 powi (bitlen a - 1)"
      by (simp add: d_def power_int_add [symmetric])
    also have "\<dots> \<le> of_int a" by (rule pa(1))
    finally show ?thesis using bpos by (simp add: x pos_le_divide_eq)
  qed
  have bd: "binade x = (if 2 powi d \<le> x then d else d - 1)"
    by (simp add: binade_def q d_def Let_def)
  show ?thesis
  proof (cases "2 powi d \<le> x")
    case True
    then show ?thesis using up by (simp add: bd)
  next
    case False
    then show ?thesis using lo by (simp add: bd)
  qed
qed

lemma round_half_even_error: "\<bar>of_int (round_half_even y) - y\<bar> \<le> 1 / 2"
proof -
  have "of_int \<lfloor>y\<rfloor> \<le> y" "y < of_int \<lfloor>y\<rfloor> + 1" by linarith+
  then show ?thesis by (auto simp: round_half_even_def)
qed

lemma double_of_normal:
  assumes lo: "2 powi (- 1022) \<le> x" and hi: "x < 2 powi 1023"
  shows "\<exists>v. double_of x = Fin v \<and> 0 < v \<and> \<bar>v - x\<bar> \<le> x / 2 ^ 53"
proof -
  have xpos: "0 < x" using lo by (rule less_le_trans [rotated]) simp
  define e where "e = binade x"
  from binade_bounds [OF xpos] have b: "2 powi e \<le> x" "x < 2 powi (e + 1)" by (simp_all add: e_def)
  have e_lo: "- 1022 \<le> e"
  proof (rule ccontr)
    assume "\<not> - 1022 \<le> e"
    then have "e + 1 \<le> - 1022" by simp
    then have "(2::rat) powi (e + 1) \<le> 2 powi (- 1022)" by (intro power_int_increasing) simp_all
    with b(2) lo show False by linarith
  qed
  have e_hi: "e \<le> 1022"
  proof (rule ccontr)
    assume "\<not> e \<le> 1022"
    then have "1023 \<le> e" by simp
    then have "(2::rat) powi 1023 \<le> 2 powi e" by (intro power_int_increasing) simp_all
    with b(1) hi show False by linarith
  qed
  define q :: rat where "q = 2 powi (e - 52)"
  have qpos: "0 < q" by (simp add: q_def)
  have q52: "q * 2 ^ 52 = 2 powi e"
    by (simp add: q_def power_int_diff)
  have q53: "q * 2 ^ 53 = 2 powi (e + 1)"
    by (simp add: q_def power_int_diff power_int_add)
  define y where "y = x / q"
  have y_lo: "2 ^ 52 \<le> y"
  proof -
    have "q * 2 ^ 52 \<le> x" using b(1) by (simp only: q52)
    then show ?thesis using qpos by (simp add: y_def pos_le_divide_eq mult.commute)
  qed
  have y_hi: "y < 2 ^ 53"
  proof -
    have "x < q * 2 ^ 53" using b(2) by (simp only: q53)
    then show ?thesis using qpos by (simp add: y_def pos_divide_less_eq mult.commute)
  qed
  define m where "m = round_half_even y"
  have err: "\<bar>of_int m - y\<bar> \<le> 1 / 2" unfolding m_def by (rule round_half_even_error)
  have "(2::rat) ^ 52 - 1 / 2 \<le> of_int m" using err y_lo by linarith
  then have "(of_int (2 ^ 52 - 1) :: rat) < of_int m" by simp
  then have m_lo: "2 ^ 52 - 1 < m" by (simp only: of_int_less_iff)
  have "(of_int m :: rat) < 2 ^ 53 + 1 / 2" using err y_hi by linarith
  then have "(of_int m :: rat) < of_int (2 ^ 53 + 1)" by simp
  then have m_hi: "m < 2 ^ 53 + 1" by (simp only: of_int_less_iff)
  have mpos: "0 < m" using m_lo by simp
  have d: "double_of x = Fin (of_int m * q)"
    using xpos e_lo e_hi mpos
    by (simp add: double_of_def Let_def e_def [symmetric] max_def q_def [symmetric]
        y_def [symmetric] m_def [symmetric])
  have "of_int m * q - x = q * (of_int m - y)"
    using qpos by (simp add: y_def right_diff_distrib)
  then have "\<bar>of_int m * q - x\<bar> = q * \<bar>of_int m - y\<bar>"
    using qpos by (simp add: abs_mult)
  also have "\<dots> \<le> q * (1 / 2)" using err qpos by (intro mult_left_mono) simp_all
  also have "\<dots> = 2 powi e / 2 ^ 53" by (simp add: q52 [symmetric])
  also have "\<dots> \<le> x / 2 ^ 53" using b(1) by (simp add: divide_right_mono)
  finally have close: "\<bar>of_int m * q - x\<bar> \<le> x / 2 ^ 53" .
  have "0 < of_int m * q" using mpos qpos by simp
  with d close show ?thesis by blast
qed

lemma double_of_overflow:
  assumes "2 powi 1024 \<le> x"
  shows "double_of x = PosInf"
proof -
  have xpos: "0 < x" using assms by (rule less_le_trans [rotated]) simp
  from binade_bounds [OF xpos] have b: "x < 2 powi (binade x + 1)" by simp
  have "1024 \<le> binade x"
  proof (rule ccontr)
    assume "\<not> 1024 \<le> binade x"
    then have "binade x + 1 \<le> 1024" by simp
    then have "(2::rat) powi (binade x + 1) \<le> 2 powi 1024"
      by (intro power_int_increasing) simp_all
    with b assms show False by linarith
  qed
  then show ?thesis using xpos by (simp add: double_of_def Let_def max_def)
qed

lemma largest_binade_times_100: "js_mul (Fin (2 ^ 1023)) (Fin 100) = PosInf"
proof -
  have "(2::rat) powi 1024 \<le> 2 ^ 1023 * 100" by simp
  then show ?thesis by (simp add: js_mul_def is_inf_def is_zero_def double_of_overflow)
qed

lemma cents_close:
  assumes s: "0 < s" and q: "0 < q" and lo: "2 powi (- 1000) \<le> s / q" and hi: "s / q \<le> 2 powi 1000"
  shows "cents_of (s / q) (Math_round (js_mul (js_div (Fin s) (Fin q)) (Fin 100)))"
proof -
  define x where "x = s / q"
  have xpos: "0 < x" using s q by (simp add: x_def)
  have r1: "2 powi (- 1022) \<le> x" "x < 2 powi 1023"
  proof -
    have "(2::rat) powi (- 1022) \<le> 2 powi (- 1000)" by (intro power_int_increasing) simp_all
    then show "2 powi (- 1022) \<le> x" using lo unfolding x_def by linarith
    have "(2::rat) powi 1000 < 2 powi 1023" by (intro power_int_strict_increasing) simp_all
    then show "x < 2 powi 1023" using hi unfolding x_def by linarith
  qed
  from double_of_normal [OF r1] obtain v1
    where v1: "double_of x = Fin v1" "0 < v1" "\<bar>v1 - x\<bar> \<le> x / 2 ^ 53" by blast
  have d1: "js_div (Fin s) (Fin q) = Fin v1"
    using s q v1(1) by (simp add: js_div_def is_inf_def is_zero_def x_def)
  have v1_lo: "x / 2 \<le> v1" and v1_hi: "v1 \<le> 2 * x"
  proof -
    have "x / 2 ^ 53 \<le> x / 2" using xpos by (simp add: frac_le)
    with v1(3) show "x / 2 \<le> v1" "v1 \<le> 2 * x" by linarith+
  qed
  have r2: "2 powi (- 1022) \<le> v1 * 100" "v1 * 100 < 2 powi 1023"
  proof -
    have "(2::rat) powi (- 1022) \<le> 2 powi (- 1000)" by (intro power_int_increasing) simp_all
    also have "\<dots> \<le> x" using lo by (simp only: x_def)
    also have "\<dots> \<le> v1 * 100" using v1_lo xpos by linarith
    finally show "2 powi (- 1022) \<le> v1 * 100" .
    have "v1 * 100 \<le> 200 * x" using v1_hi by linarith
    also have "\<dots> \<le> 200 * 2 powi 1000" using hi unfolding x_def by linarith
    also have "\<dots> < 2 powi 8 * 2 powi 1000" by simp
    also have "\<dots> = 2 powi 1008" by (simp add: power_int_add [symmetric])
    also have "\<dots> < 2 powi 1023" by (intro power_int_strict_increasing) simp_all
    finally show "v1 * 100 < 2 powi 1023" .
  qed
  from double_of_normal [OF r2] obtain v2
    where v2: "double_of (v1 * 100) = Fin v2" "0 < v2" "\<bar>v2 - v1 * 100\<bar> \<le> v1 * 100 / 2 ^ 53"
    by blast
  have d2: "js_mul (Fin v1) (Fin 100) = Fin v2"
    using v1(2) v2(1) by (simp add: js_mul_def is_inf_def is_zero_def)
  define n where "n = \<lfloor>v2 + 1 / 2\<rfloor>"
  have d3: "Math_round (Fin v2) = Fin (of_int n)" using v2(2) by (simp add: n_def)
  have n_err: "\<bar>of_int n - v2\<bar> \<le> 1 / 2" unfolding n_def by linarith
  have "v2 - x * 100 = (v2 - v1 * 100) + 100 * (v1 - x)" by simp
  then have "\<bar>v2 - x * 100\<bar> \<le> \<bar>v2 - v1 * 100\<bar> + \<bar>100 * (v1 - x)\<bar>"
    by (simp only: abs_triangle_ineq)
  also have "\<bar>100 * (v1 - x)\<bar> = 100 * \<bar>v1 - x\<bar>" by (simp only: abs_mult abs_numeral)
  also have "\<bar>v2 - v1 * 100\<bar> + 100 * \<bar>v1 - x\<bar> \<le> v1 * 100 / 2 ^ 53 + 100 * (x / 2 ^ 53)"
    by (intro add_mono mult_left_mono v2(3) v1(3)) simp
  also have "\<dots> \<le> (2 * x) * 100 / 2 ^ 53 + 100 * (x / 2 ^ 53)"
    using v1_hi by (simp add: divide_right_mono)
  also have "\<dots> \<le> x * 100 / 2 ^ 51" using xpos by (simp add: field_simps)
  finally have "\<bar>v2 - x * 100\<bar> \<le> x * 100 / 2 ^ 51" .
  with n_err have "\<bar>of_int n - x * 100\<bar> \<le> 1 / 2 + x * 100 / 2 ^ 51" by linarith
  then show ?thesis using d1 d2 d3 by (simp add: x_def cents_of_def)
qed

lemma js_gt_zero_truthy: "js_gt_zero x \<Longrightarrow> num_truthy (Some x)"
  by (cases x) (simp_all add: num_truthy_def is_zero_def)

lemma positive_amount:
  "(num_truthy n \<and> js_gt_zero (to_num n)) = js_gt_zero (to_num n)"
  by (cases n) (auto simp: to_num_def num_truthy_def dest: js_gt_zero_truthy)

text \<open>Values of the arithmetic on the sample amounts.\<close>

lemma double_of_0_015: "double_of (3 / 200) = Fin (1080863910568919 / 72057594037927936)"
  by code_simp

lemma cents_23_per_40: "Math_round (js_mul (js_div (Fin 23) (Fin 40)) (Fin 100)) = Fin 57"
  by code_simp

lemma cents_0_015:
  "Math_round (js_mul (Fin (1080863910568919 / 72057594037927936)) (Fin 100)) = Fin 2"
  by code_simp

lemma cents_10: "Math_round (js_mul (Fin 10) (Fin 100)) = Fin 1000"
  by code_simp

lemma cents_fallback:
  "Math_round (js_mul (js_div (js_mul (Fin 500) (Fin 2)) (Fin 2)) (Fin 100)) = Fin 50000"
  by code_simp

lemma cents_zero_subtotal: "Math_round (js_mul (js_div (Fin 0) (Fin 2)) (Fin 100)) = Fin 0"
  by code_simp

section \<open>Structure of the handlers\<close>

lemma headers_status_json: "headers (status_json n obj r) = headers r"
  by (simp add: status_json_def)

lemma headers_status_end: "headers (status_end n r) = headers r"
  by (simp add: status_end_def)

lemma statusCode_status_json: "statusCode (status_json n obj r) = n"
  by (simp add: status_json_def)

lemma and_then_Inr: "and_then m f = Inr y \<Longrightarrow> \<exists>x. m = Inr x \<and> f x = Inr y"
  by (cases m) (simp_all add: and_then_def)

lemma and_then_simps:
  "and_then (Inl err) f = Inl err"
  "and_then (Inr x) f = f x"
  by (simp_all add: and_then_def)

text \<open>What a POST request gets once its required form data is present, stage by stage.\<close>

lemma stripe_handler_validated:
  assumes "req_method req = ''POST''" "body req = Some b" "formData b = Some fd"
    "fd_pricing fd = Some pr" "fd_product fd = Some pd"
  shows "stripe_handler e create req =
     (if \<not> str_truthy (STRIPE_SECRET_KEY e)
      then (status_json 500 [(''error'', Some (JStr ''Payment system configuration error''))]
              (set_cors new_res), [])
      else case currency pr of
        None \<Rightarrow>
          (stripe_catch (TypeError ''Cannot read properties of undefined (reading 'toLowerCase')'')
             (set_cors new_res), [])
      | Some cur \<Rightarrow>
          if payment_type b = ''ach'' \<and> toUpperCase cur \<noteq> ''USD''
          then (status_json 400 [(''error'', Some (JStr ''ACH payments only support USD currency.''))]
                  (set_cors new_res), [])
          else
            ((case stripe_after_create
                     (create (build_session_config req cur fd pr pd (payment_type b = ''ach'')))
                     (set_cors new_res) of
                Inr r' \<Rightarrow> r'
              | Inl err \<Rightarrow> stripe_catch err (set_cors new_res)),
             [build_session_config req cur fd pr pd (payment_type b = ''ach'')]))"
  using assms
  by (simp add: stripe_handler_def stripe_try_def Let_def split: option.splits sum.splits)

lemma stripe_handler_rejected:
  assumes "req_method req = ''POST''" "body req = Some b"
    "formData b = None \<or> (\<exists>fd. formData b = Some fd \<and> (fd_pricing fd = None \<or> fd_product fd = None))"
  shows "stripe_handler e create req =
     (status_json 400 [(''error'', Some (JStr ''Missing required form data''))] (set_cors new_res), [])"
  using assms
  by (auto simp add: stripe_handler_def stripe_try_def Let_def split: option.splits)

lemma stripe_handler_reach:
  assumes "cfg \<in> set (snd (stripe_handler e create req))"
  shows "\<exists>b fd pr pd cur.
     req_method req = ''POST'' \<and> body req = Some b \<and> formData b = Some fd
     \<and> fd_pricing fd = Some pr \<and> fd_product fd = Some pd
     \<and> str_truthy (STRIPE_SECRET_KEY e) \<and> currency pr = Some cur
     \<and> \<not> (payment_type b = ''ach'' \<and> toUpperCase cur \<noteq> ''USD'')
     \<and> cfg = build_session_config req cur fd pr pd (payment_type b = ''ach'')"
  using assms
  by (auto simp add: stripe_handler_def stripe_try_def Let_def split: option.splits if_splits sum.splits)

lemma crypto_handler_validated:
  assumes "req_method req = ''POST''" "body req = Some b" "formData b = Some fd"
    "fd_pricing fd = Some pr" "fd_product fd = Some pd" "fd_customer fd = Some cu"
  shows "crypto_handler e fetch req =
     (if \<not> str_truthy (NOWPAYMENTS_API_KEY e)
      then (status_json 500 [(''error'', Some (JStr ''Payment system configuration error''))]
              (set_cors new_res), [])
      else case currency pr of
        None \<Rightarrow>
          (crypto_catch e (TypeError ''Cannot read properties of undefined (reading 'toLowerCase')'')
             (set_cors new_res), [])
      | Some cur \<Rightarrow>
          ((case crypto_after_fetch
                   (fetch \<lparr>fetch_url = ''https://api.nowpayments.io/v1/invoice'',
                           fetch_method = ''POST'',
                           x_api_key = str_or (NOWPAYMENTS_API_KEY e) [],
                           content_type = ''application/json'',
                           fetch_body = build_invoice_data req cur fd pr pd\<rparr>)
                   (set_cors new_res) of
              Inr r' \<Rightarrow> r'
            | Inl err \<Rightarrow> crypto_catch e err (set_cors new_res)),
           [\<lparr>fetch_url = ''https://api.nowpayments.io/v1/invoice'',
             fetch_method = ''POST'',
             x_api_key = str_or (NOWPAYMENTS_API_KEY e) [],
             content_type = ''application/json'',
             fetch_body = build_invoice_data req cur fd pr pd\<rparr>]))"
  using assms
  by (simp add: crypto_handler_def crypto_try_def Let_def str_truthy_def str_or_def
        split: option.splits sum.splits)

lemma crypto_handler_rejected:
  assumes "req_method req = ''POST''" "body req = Some b"
    "formData b = None \<or> (\<exists>fd. formData b = Some fd \<and>
        (fd_pricing fd = None \<or> fd_product fd = None \<or> fd_customer fd = None))"
  shows "crypto_handler e fetch req =
     (status_json 400 [(''error'', Some (JStr ''Missing required form data''))] (set_cors new_res), [])"
  using assms
  by (auto simp add: crypto_handler_def crypto_try_def Let_def split: option.splits)

lemma crypto_handler_reach:
  assumes "c \<in> set (snd (crypto_handler e fetch req))"
  shows "crypto_handler e fetch req =
     ((case crypto_after_fetch (fetch c) (set_cors new_res) of
         Inr r' \<Rightarrow> r'
       | Inl err \<Rightarrow> crypto_catch e err (set_cors new_res)), [c])"
  using assms
  by (auto simp add: crypto_handler_def crypto_try_def Let_def split: option.splits if_splits sum.splits)

lemma stripe_handler_reach_result:
  assumes "cfg \<in> set (snd (stripe_handler e create req))"
  shows "stripe_handler e create req =
     ((case stripe_after_create (create cfg) (set_cors new_res) of
         Inr r' \<Rightarrow> r'
       | Inl err \<Rightarrow> stripe_catch err (set_cors new_res)), [cfg])"
  using assms
  by (auto simp add: stripe_handler_def stripe_try_def Let_def split: option.splits if_splits sum.splits)

lemma crypto_respond_headers: "crypto_respond rsp data r = Inr r' \<Longrightarrow> headers r' = headers r"
  unfolding crypto_respond_def
  by (auto simp: headers_status_json split: if_splits dest!: and_then_Inr)

lemma crypto_try_headers: "crypto_try e fetch req r = (calls, Inr r') \<Longrightarrow> headers r' = headers r"
  unfolding crypto_try_def crypto_after_fetch_def
  by (auto simp: headers_status_json Let_def crypto_respond_headers
      split: option.splits if_splits fetch_outcome.splits)

lemma stripe_try_headers: "stripe_try e create req r = (calls, Inr r') \<Longrightarrow> headers r' = headers r"
  unfolding stripe_try_def stripe_after_create_def
  by (auto simp: headers_status_json Let_def split: option.splits if_splits sum.splits)

lemma stripe_handler_headers:
  "headers (fst (stripe_handler e create req)) = headers (set_cors new_res)"
  unfolding stripe_handler_def Let_def
  by (auto simp: headers_status_json headers_status_end stripe_catch_def
      split: prod.splits sum.splits dest: stripe_try_headers)

lemma crypto_handler_headers:
  "headers (fst (crypto_handler e fetch req)) = headers (set_cors new_res)"
  unfolding crypto_handler_def Let_def
  by (auto simp: headers_status_json headers_status_end crypto_catch_def
      split: prod.splits sum.splits dest: crypto_try_headers)

lemma cors_values:
  "headers (set_cors new_res) ''Access-Control-Allow-Origin'' = Some ''*''"
  "headers (set_cors new_res) ''Access-Control-Allow-Methods'' = Some ''POST, OPTIONS''"
  "headers (set_cors new_res) ''Access-Control-Allow-Headers'' = Some ''Content-Type''"
  by (simp_all add: set_cors_def setHeader_def new_res_def)

lemma js_get_not_null: "data \<noteq> JNull \<Longrightarrow> js_get data k = Inr (json_prop data k)"
  by (cases data) (simp_all add: json_prop_def)

lemma sent_prop_status_json:
  "sent_prop (status_json n obj r) k = (case map_of obj k of None \<Rightarrow> None | Some v \<Rightarrow> v)"
  by (simp add: sent_prop_def status_json_def)

lemma sample_request_fields:
  "req_method sample_request = ''POST''"
  "body sample_request = Some \<lparr>formData = Some sample_form, paymentType = None\<rparr>"
  "formData \<lparr>formData = Some sample_form, paymentType = None\<rparr> = Some sample_form"
  "fd_pricing sample_form = Some sample_pricing"
  "fd_product sample_form = Some sample_product"
  "fd_customer sample_form = Some sample_customer"
  by (simp_all add: sample_request_def post_request_def sample_form_def)

lemma sample_settings:
  "str_truthy (NOWPAYMENTS_API_KEY configured_env)"
  "str_truthy (STRIPE_SECRET_KEY configured_env)"
  "str_or (NOWPAYMENTS_API_KEY configured_env) [] = ''np_key_1''"
  "currency sample_pricing = Some ''usd''"
  "payment_type \<lparr>formData = Some sample_form, paymentType = None\<rparr> = ''card''"
  by (simp_all add: configured_env_def str_truthy_def str_or_def sample_pricing_def payment_type_def)

lemma sample_crypto_result:
  "crypto_handler configured_env fetch sample_request =
     ((case crypto_after_fetch (fetch sample_fetch_request) (set_cors new_res) of
         Inr r' \<Rightarrow> r'
       | Inl err \<Rightarrow> crypto_catch configured_env err (set_cors new_res)), [sample_fetch_request])"
  by (simp add: crypto_handler_validated [OF sample_request_fields] sample_settings
      sample_fetch_request_def)

lemma sample_stripe_result:
  "stripe_handler configured_env create sample_request =
     ((case stripe_after_create (create sample_session_config) (set_cors new_res) of
         Inr r' \<Rightarrow> r'
       | Inl err \<Rightarrow> stripe_catch err (set_cors new_res)), [sample_session_config])"
  by (simp add: stripe_handler_validated [OF sample_request_fields(1-5)] sample_settings
      sample_session_config_def)

lemma stripe_after_create_status:
  "stripe_after_create outcome r = Inr r' \<Longrightarrow> statusCode r' = 200 \<and> \<not> is_error_response r'"
  by (auto simp: stripe_after_create_def status_json_def is_error_response_def split: sum.splits)

lemma stripe_catch_status: "statusCode (stripe_catch err r) = 400"
  by (simp add: stripe_catch_def statusCode_status_json)

lemma stripe_error_status:
  assumes "is_error_response (fst (stripe_handler e create req))"
  shows "statusCode (fst (stripe_handler e create req)) \<in> {400, 405, 500}"
proof (cases "snd (stripe_handler e create req) = []")
  case True
  then show ?thesis using assms
    unfolding stripe_handler_def stripe_try_def Let_def
    by (auto simp: statusCode_status_json status_end_def stripe_catch_status is_error_response_def
        split: option.splits if_splits sum.splits)
next
  case False
  then obtain cfg where c: "cfg \<in> set (snd (stripe_handler e create req))"
    by (cases "snd (stripe_handler e create req)") auto
  note r = stripe_handler_reach_result [OF c]
  show ?thesis
  proof (cases "stripe_after_create (create cfg) (set_cors new_res)")
    case (Inl err)
    then show ?thesis by (simp add: r stripe_catch_status)
  next
    case (Inr r')
    with stripe_after_create_status [OF Inr] assms show ?thesis by (simp add: r)
  qed
qed

lemma crypto_respond_status:
  "crypto_respond rsp data r = Inr r' \<Longrightarrow> is_error_response r'
     \<Longrightarrow> statusCode r' \<in> {400, 500} \<or> (\<not> response_ok rsp \<and> statusCode r' = up_status rsp)"
  unfolding crypto_respond_def
  by (auto simp: status_json_def is_error_response_def split: if_splits dest!: and_then_Inr)

lemma crypto_catch_status: "statusCode (crypto_catch e err r) \<in> {500, 503}"
  by (simp add: crypto_catch_def statusCode_status_json)

lemma crypto_no_call_status:
  "snd (crypto_handler e fetch req) = [] \<Longrightarrow> is_error_response (fst (crypto_handler e fetch req))
     \<Longrightarrow> statusCode (fst (crypto_handler e fetch req)) \<in> {400, 405, 500}"
  unfolding crypto_handler_def crypto_try_def Let_def
  by (auto simp: statusCode_status_json status_end_def crypto_catch_def TypeError_def
        is_error_response_def
      split: option.splits if_splits sum.splits)

lemma crypto_error_status:
  assumes err: "is_error_response (fst (crypto_handler e fetch req))"
  shows "statusCode (fst (crypto_handler e fetch req)) \<in> {400, 405, 500, 503}
   \<or> (\<exists>c rsp. c \<in> set (snd (crypto_handler e fetch req)) \<and> fetch c = FetchResponse rsp
         \<and> \<not> response_ok rsp \<and> statusCode (fst (crypto_handler e fetch req)) = up_status rsp)"
proof (cases "snd (crypto_handler e fetch req) = []")
  case True
  with err crypto_no_call_status [of e fetch req] show ?thesis by auto
next
  case False
  then obtain c where c: "c \<in> set (snd (crypto_handler e fetch req))"
    by (cases "snd (crypto_handler e fetch req)") auto
  note r = crypto_handler_reach [OF c]
  show ?thesis
  proof (cases "crypto_after_fetch (fetch c) (set_cors new_res)")
    case (Inl err)
    then have "fst (crypto_handler e fetch req) = crypto_catch e err (set_cors new_res)"
      by (simp add: r)
    then show ?thesis using crypto_catch_status [of e err "set_cors new_res"] by auto
  next
    case (Inr r')
    then have f: "fst (crypto_handler e fetch req) = r'" by (simp add: r)
    from Inr obtain rsp where rsp: "fetch c = FetchResponse rsp"
      by (cases "fetch c") (simp_all add: crypto_after_fetch_def)
    show ?thesis
    proof (cases "up_parsed rsp")
      case None
      with Inr rsp have "statusCode r' = 500"
        by (auto simp: crypto_after_fetch_def statusCode_status_json)
      then show ?thesis by (simp add: f)
    next
      case (Some data)
      with Inr rsp have "crypto_respond rsp data (set_cors new_res) = Inr r'"
        by (simp add: crypto_after_fetch_def)
      from crypto_respond_status [OF this] err show ?thesis
        using c rsp f by auto
    qed
  qed
qed

lemma get_request_results:
  "stripe_handler e create get_request =
     (status_json 405 [(''error'', Some (JStr ''Method not allowed''))] (set_cors new_res), [])"
  "crypto_handler e fetch get_request =
     (status_json 405 [(''error'', Some (JStr ''Method not allowed''))] (set_cors new_res), [])"
  by (simp_all add: stripe_handler_def crypto_handler_def get_request_def)

lemma is_error_status_json:
  "is_error_response (status_json n obj r) = (map_of obj ''error'' \<noteq> None)"
  by (simp add: is_error_response_def status_json_def)

lemma sample_upstream_error:
  "crypto_handler configured_env (fetch_answers 429 (JObj [(''message'', JStr ''Too many requests'')]))
     sample_request =
   (status_json 429
      [(''error'', Some (JStr ''Failed to create crypto payment'')),
       (''details'', Some (JStr ''Too many requests''))] (set_cors new_res),
    [sample_fetch_request])"
  by (simp add: sample_crypto_result fetch_answers_def crypto_after_fetch_def crypto_respond_def
      response_ok_def and_then_def js_or_str_def)

lemma js_truthy_prop_not_null: "js_truthy (json_prop data k) \<Longrightarrow> data \<noteq> JNull"
  by (cases data) (simp_all add: json_prop_def)

lemma crypto_respond_success:
  assumes "response_ok rsp" and "js_truthy (json_prop data ''invoice_url'')"
  shows "crypto_respond rsp data r =
     Inr (status_json 200
            [(''invoice_url'', json_prop data ''invoice_url''),
             (''invoice_id'', json_prop data ''id''),
             (''order_id'', json_prop data ''order_id''),
             (''created_at'', json_prop data ''created_at''),
             (''pay_address'', json_prop data ''pay_address''),
             (''pay_amount'', json_prop data ''pay_amount''),
             (''pay_currency'', json_prop data ''pay_currency'')] r)"
  using assms js_truthy_prop_not_null [OF assms(2)]
  by (simp add: crypto_respond_def js_get_not_null and_then_simps)

lemma crypto_respond_no_invoice_url:
  assumes "response_ok rsp" and "\<not> js_truthy (json_prop data ''invoice_url'')"
  shows "(case crypto_respond rsp data r of
            Inr r' \<Rightarrow> statusCode r'
          | Inl err \<Rightarrow> statusCode (crypto_catch e err r)) = 500"
proof (cases "data = JNull")
  case True
  then show ?thesis using assms(1)
    by (simp add: crypto_respond_def and_then_simps crypto_catch_def TypeError_def
        statusCode_status_json)
next
  case False
  then show ?thesis using assms
    by (simp add: crypto_respond_def js_get_not_null and_then_simps statusCode_status_json)
qed

lemma sample_crypto_call:
  "sample_fetch_request \<in> set (snd (crypto_handler configured_env fetch sample_request))"
  by (simp add: sample_crypto_result)

text \<open>With a body object, a POST request without the required form data is answered with
  400 by both handlers, before any call.\<close>

lemma form_data_validation:
  assumes "req_method req = ''POST''" and "body req = Some b"
    and "formData b = None \<or>
         (\<exists>fd. formData b = Some fd \<and> (fd_pricing fd = None \<or> fd_product fd = None))"
  shows "statusCode (fst (stripe_handler e create req)) = 400
     \<and> snd (stripe_handler e create req) = []
     \<and> statusCode (fst (crypto_handler e fetch req)) = 400
     \<and> snd (crypto_handler e fetch req) = []"
proof -
  have s: "stripe_handler e create req =
      (status_json 400 [(''error'', Some (JStr ''Missing required form data''))] (set_cors new_res), [])"
    using assms by (rule stripe_handler_rejected)
  have "formData b = None \<or> (\<exists>fd. formData b = Some fd \<and>
        (fd_pricing fd = None \<or> fd_product fd = None \<or> fd_customer fd = None))"
    using assms(3) by blast
  with assms(1,2) have c: "crypto_handler e fetch req =
      (status_json 400 [(''error'', Some (JStr ''Missing required form data''))] (set_cors new_res), [])"
    by (rule crypto_handler_rejected)
  show ?thesis by (simp add: s c statusCode_status_json)
qed

lemma inexact_call:
  "inexact_session_config
     \<in> set (snd (stripe_handler configured_env create inexact_request))"
  by (simp add: stripe_handler_validated
        [where b = "\<lparr>formData = Some inexact_form, paymentType = None\<rparr>" and fd = inexact_form
           and pr = inexact_pricing and pd = inexact_product]
      inexact_request_def post_request_def inexact_form_def sample_form_def inexact_pricing_def
      sample_settings payment_type_def inexact_session_config_def)

section \<open>Properties\<close>

text \<open>
  C9. Every response of either handler carries the three CORS headers: the answer to
  OPTIONS, the 405 for a rejected method, every validation or upstream error, and success.
  The statement is for every environment, provider and request.
\<close>

theorem cors_headers_on_every_response:
  "headers (fst (stripe_handler e create req)) ''Access-Control-Allow-Origin'' = Some ''*''
   \<and> headers (fst (stripe_handler e create req)) ''Access-Control-Allow-Methods'' = Some ''POST, OPTIONS''
   \<and> headers (fst (stripe_handler e create req)) ''Access-Control-Allow-Headers'' = Some ''Content-Type''
   \<and> headers (fst (crypto_handler e fetch req)) ''Access-Control-Allow-Origin'' = Some ''*''
   \<and> headers (fst (crypto_handler e fetch req)) ''Access-Control-Allow-Methods'' = Some ''POST, OPTIONS''
   \<and> headers (fst (crypto_handler e fetch req)) ''Access-Control-Allow-Headers'' = Some ''Content-Type''"
  by (simp add: stripe_handler_headers crypto_handler_headers cors_values)

text \<open>
  C6. A POST request whose body lacks \<open>formData\<close>, \<open>pricing\<close> or \<open>product\<close> is to be answered with
  400 by either handler, without an outbound call. The code does not do so for a POST
  request with no body: reading \<open>formData\<close> from \<open>req.body\<close> throws before the validation,
  and the crypto handler answers 500 with its general failure message. The card/ACH handler
  answers 400 there, and neither handler makes a call.
\<close>

theorem missing_body_not_rejected_with_400:
  "req_method bodyless_post = ''POST''
   \<and> body bodyless_post = None
   \<and> statusCode (fst (crypto_handler e fetch bodyless_post)) = 500
   \<and> sent_prop (fst (crypto_handler e fetch bodyless_post)) ''error''
       = Some (JStr ''Failed to process crypto payment. Please try again.'')
   \<and> snd (crypto_handler e fetch bodyless_post) = []
   \<and> statusCode (fst (stripe_handler e create bodyless_post)) = 400
   \<and> snd (stripe_handler e create bodyless_post) = []"
  by (simp add: bodyless_post_def crypto_handler_def crypto_try_def crypto_catch_def
      stripe_handler_def stripe_try_def stripe_catch_def TypeError_def statusCode_status_json
      sent_prop_status_json)

text \<open>
  C1. When the outbound call of the crypto handler fails with a DNS-resolution,
  connection-refused or timeout error (the codes ENOTFOUND, ECONNREFUSED, ETIMEDOUT), the
  response is 503. The card/ACH handler has no such branch: it answers every failure of
  the provider call with 400.
\<close>

theorem network_failure_status:
  "(c \<in> set (snd (crypto_handler e fetch req)) \<and> fetch c = FetchThrows err \<and> network_failure err
      \<longrightarrow> statusCode (fst (crypto_handler e fetch req)) = 503)
   \<and> (cfg \<in> set (snd (stripe_handler e create req)) \<and> create cfg = Inl err'
      \<longrightarrow> statusCode (fst (stripe_handler e create req)) = 400)"
proof (intro conjI impI)
  assume a: "c \<in> set (snd (crypto_handler e fetch req)) \<and> fetch c = FetchThrows err \<and> network_failure err"
  then have "crypto_handler e fetch req = (crypto_catch e err (set_cors new_res), [c])"
    by (simp add: crypto_handler_reach [of c] crypto_after_fetch_def)
  moreover have "statusCode (crypto_catch e err (set_cors new_res)) = 503"
    using a by (auto simp: crypto_catch_def network_failure_def statusCode_status_json)
  ultimately show "statusCode (fst (crypto_handler e fetch req)) = 503" by simp
next
  assume a: "cfg \<in> set (snd (stripe_handler e create req)) \<and> create cfg = Inl err'"
  then have "stripe_handler e create req = (stripe_catch err' (set_cors new_res), [cfg])"
    by (simp add: stripe_handler_reach_result [of cfg] stripe_after_create_def)
  then show "statusCode (fst (stripe_handler e create req)) = 400"
    by (simp add: stripe_catch_def statusCode_status_json)
qed

theorem network_failure_status_witness:
  "sample_fetch_request \<in> set (snd (crypto_handler configured_env (fetch_fails ''ENOTFOUND'') sample_request))
   \<and> fetch_fails ''ENOTFOUND'' sample_fetch_request = FetchThrows (system_error ''ENOTFOUND'')
   \<and> network_failure (system_error ''ENOTFOUND'')
   \<and> statusCode (fst (crypto_handler configured_env (fetch_fails ''ENOTFOUND'') sample_request)) = 503
   \<and> sample_session_config \<in> set (snd (stripe_handler configured_env (create_fails ''ENOTFOUND'') sample_request))
   \<and> create_fails ''ENOTFOUND'' sample_session_config = Inl (system_error ''ENOTFOUND'')
   \<and> statusCode (fst (stripe_handler configured_env (create_fails ''ENOTFOUND'') sample_request)) = 400"
  using network_failure_status
    [of sample_fetch_request configured_env "fetch_fails ''ENOTFOUND''" sample_request
        "system_error ''ENOTFOUND''" sample_session_config "create_fails ''ENOTFOUND''"
        "system_error ''ENOTFOUND''"]
  by (simp add: sample_crypto_result sample_stripe_result fetch_fails_def create_fails_def
      network_failure_def system_error_def)

text \<open>
  The claim as stated, with 503 on either endpoint, fails for the card/ACH handler: a
  refused connection to the provider is answered with 400.
\<close>

theorem network_failure_counterexample:
  "sample_session_config \<in> set (snd (stripe_handler configured_env (create_fails ''ECONNREFUSED'') sample_request))
   \<and> create_fails ''ECONNREFUSED'' sample_session_config = Inl (system_error ''ECONNREFUSED'')
   \<and> network_failure (system_error ''ECONNREFUSED'')
   \<and> statusCode (fst (stripe_handler configured_env (create_fails ''ECONNREFUSED'') sample_request)) = 400
   \<and> statusCode (fst (stripe_handler configured_env (create_fails ''ECONNREFUSED'') sample_request)) \<noteq> 503"
  by (simp add: sample_stripe_result create_fails_def stripe_after_create_def stripe_catch_def
      statusCode_status_json network_failure_def system_error_def)

text \<open>
  C2. The status of an error response of the card/ACH handler is 400, 405 or 500. The
  status of an error response of the crypto handler is 400, 405, 500, 503, or the status
  of a provider response that is not in the range 200 to 299, which is handed on.
\<close>

theorem error_status_codes:
  "(is_error_response (fst (stripe_handler e create req))
      \<longrightarrow> statusCode (fst (stripe_handler e create req)) \<in> {400, 405, 500})
   \<and> (is_error_response (fst (crypto_handler e fetch req))
      \<longrightarrow> statusCode (fst (crypto_handler e fetch req)) \<in> {400, 405, 500, 503}
          \<or> (\<exists>c rsp. c \<in> set (snd (crypto_handler e fetch req)) \<and> fetch c = FetchResponse rsp
                \<and> \<not> response_ok rsp
                \<and> statusCode (fst (crypto_handler e fetch req)) = up_status rsp))"
  using stripe_error_status [of e create req] crypto_error_status [of e fetch req] by blast

theorem error_status_codes_witness:
  "is_error_response (fst (stripe_handler configured_env create_succeeds get_request))
   \<and> statusCode (fst (stripe_handler configured_env create_succeeds get_request)) \<in> {400, 405, 500}
   \<and> is_error_response (fst (crypto_handler configured_env
         (fetch_answers 429 (JObj [(''message'', JStr ''Too many requests'')])) sample_request))
   \<and> (statusCode (fst (crypto_handler configured_env
         (fetch_answers 429 (JObj [(''message'', JStr ''Too many requests'')])) sample_request))
         \<in> {400, 405, 500, 503}
       \<or> (\<exists>c rsp. c \<in> set (snd (crypto_handler configured_env
               (fetch_answers 429 (JObj [(''message'', JStr ''Too many requests'')])) sample_request))
             \<and> fetch_answers 429 (JObj [(''message'', JStr ''Too many requests'')]) c = FetchResponse rsp
             \<and> \<not> response_ok rsp
             \<and> statusCode (fst (crypto_handler configured_env
                  (fetch_answers 429 (JObj [(''message'', JStr ''Too many requests'')])) sample_request))
                = up_status rsp))"
proof -
  have a: "is_error_response (fst (stripe_handler configured_env create_succeeds get_request))"
    by (simp add: get_request_results is_error_status_json)
  have b: "is_error_response (fst (crypto_handler configured_env
         (fetch_answers 429 (JObj [(''message'', JStr ''Too many requests'')])) sample_request))"
    by (simp add: sample_upstream_error is_error_status_json)
  from a b error_status_codes [of configured_env create_succeeds get_request
      "fetch_answers 429 (JObj [(''message'', JStr ''Too many requests'')])"]
    error_status_codes [of configured_env create_succeeds sample_request
      "fetch_answers 429 (JObj [(''message'', JStr ''Too many requests'')])"]
  show ?thesis by blast
qed

text \<open>
  The claim as stated, with no error status other than 400, 500 and 503, fails twice: a
  GET request is answered with 405, and a provider response with status 429 is answered
  with 429.
\<close>

theorem error_status_codes_counterexample:
  "is_error_response (fst (stripe_handler configured_env create_succeeds get_request))
   \<and> statusCode (fst (stripe_handler configured_env create_succeeds get_request)) = 405
   \<and> is_error_response (fst (crypto_handler configured_env
         (fetch_answers 429 (JObj [(''message'', JStr ''Too many requests'')])) sample_request))
   \<and> statusCode (fst (crypto_handler configured_env
         (fetch_answers 429 (JObj [(''message'', JStr ''Too many requests'')])) sample_request)) = 429"
  by (simp add: get_request_results sample_upstream_error is_error_status_json statusCode_status_json)


text \<open>
  C7. A POST request whose form data passes the validation, processed while the provider
  credential is unset (or empty), is answered with 500 and the message
  \<open>Payment system configuration error\<close>, and no outbound call is made. For the crypto
  handler the validation includes the customer.
\<close>

theorem credential_unset_after_validation:
  assumes "req_method req = ''POST''" and "body req = Some b" and "formData b = Some fd"
    and "fd_pricing fd = Some pr" and "fd_product fd = Some pd"
  shows "(\<not> str_truthy (STRIPE_SECRET_KEY e)
            \<longrightarrow> statusCode (fst (stripe_handler e create req)) = 500
                \<and> sent_prop (fst (stripe_handler e create req)) ''error''
                    = Some (JStr ''Payment system configuration error'')
                \<and> snd (stripe_handler e create req) = [])
       \<and> (fd_customer fd \<noteq> None \<and> \<not> str_truthy (NOWPAYMENTS_API_KEY e)
            \<longrightarrow> statusCode (fst (crypto_handler e fetch req)) = 500
                \<and> sent_prop (fst (crypto_handler e fetch req)) ''error''
                    = Some (JStr ''Payment system configuration error'')
                \<and> snd (crypto_handler e fetch req) = [])"
proof (intro conjI impI)
  assume k: "\<not> str_truthy (STRIPE_SECRET_KEY e)"
  have "stripe_handler e create req =
      (status_json 500 [(''error'', Some (JStr ''Payment system configuration error''))]
         (set_cors new_res), [])"
    using k by (simp add: stripe_handler_validated [OF assms])
  then show "statusCode (fst (stripe_handler e create req)) = 500"
    and "sent_prop (fst (stripe_handler e create req)) ''error''
           = Some (JStr ''Payment system configuration error'')"
    and "snd (stripe_handler e create req) = []"
    by (simp_all add: statusCode_status_json sent_prop_status_json)
next
  assume k: "fd_customer fd \<noteq> None \<and> \<not> str_truthy (NOWPAYMENTS_API_KEY e)"
  then obtain cu where cu: "fd_customer fd = Some cu" by auto
  have "crypto_handler e fetch req =
      (status_json 500 [(''error'', Some (JStr ''Payment system configuration error''))]
         (set_cors new_res), [])"
    using k by (simp add: crypto_handler_validated [OF assms cu])
  then show "statusCode (fst (crypto_handler e fetch req)) = 500"
    and "sent_prop (fst (crypto_handler e fetch req)) ''error''
           = Some (JStr ''Payment system configuration error'')"
    and "snd (crypto_handler e fetch req) = []"
    by (simp_all add: statusCode_status_json sent_prop_status_json)
qed

theorem credential_unset_after_validation_witness:
  "req_method sample_request = ''POST''
   \<and> body sample_request = Some \<lparr>formData = Some sample_form, paymentType = None\<rparr>
   \<and> fd_pricing sample_form = Some sample_pricing
   \<and> fd_product sample_form = Some sample_product
   \<and> fd_customer sample_form \<noteq> None
   \<and> \<not> str_truthy (STRIPE_SECRET_KEY unconfigured_env)
   \<and> \<not> str_truthy (NOWPAYMENTS_API_KEY unconfigured_env)
   \<and> statusCode (fst (stripe_handler unconfigured_env create_succeeds sample_request)) = 500
   \<and> snd (stripe_handler unconfigured_env create_succeeds sample_request) = []
   \<and> statusCode (fst (crypto_handler unconfigured_env (fetch_answers 200 sample_invoice)
         sample_request)) = 500
   \<and> snd (crypto_handler unconfigured_env (fetch_answers 200 sample_invoice) sample_request) = []"
  using credential_unset_after_validation
    [OF sample_request_fields(1-5), of unconfigured_env create_succeeds
        "fetch_answers 200 sample_invoice"]
  by (simp add: sample_request_fields unconfigured_env_def str_truthy_def)

text \<open>
  The claim as stated, for every POST request, fails where the form data is missing: the
  validation comes first, and the answer is 400 though the credential is unset.
\<close>

theorem credential_unset_counterexample:
  "req_method (post_request None None) = ''POST''
   \<and> STRIPE_SECRET_KEY unconfigured_env = None
   \<and> NOWPAYMENTS_API_KEY unconfigured_env = None
   \<and> statusCode (fst (stripe_handler unconfigured_env create_succeeds (post_request None None))) = 400
   \<and> statusCode (fst (crypto_handler unconfigured_env (fetch_answers 200 sample_invoice)
         (post_request None None))) = 400"
  by (simp add: post_request_def unconfigured_env_def
      stripe_handler_rejected [where b = "\<lparr>formData = None, paymentType = None\<rparr>"]
      crypto_handler_rejected [where b = "\<lparr>formData = None, paymentType = None\<rparr>"]
      statusCode_status_json)

text \<open>
  C8. A POST request to the card/ACH handler with payment type \<open>ach\<close> and a pricing currency
  that is not USD in any letter case never leads to a provider call, and is answered with 400
  when the secret key is configured.
\<close>

theorem ach_requires_usd:
  assumes "req_method req = ''POST''" and "body req = Some b" and "paymentType b = Some ''ach''"
    and "formData b = Some fd" and "fd_pricing fd = Some pr" and "currency pr = Some cur"
    and "toUpperCase cur \<noteq> ''USD''"
  shows "snd (stripe_handler e create req) = []
       \<and> (str_truthy (STRIPE_SECRET_KEY e) \<longrightarrow> statusCode (fst (stripe_handler e create req)) = 400)"
proof (cases "fd_product fd")
  case None
  then have "stripe_handler e create req =
      (status_json 400 [(''error'', Some (JStr ''Missing required form data''))] (set_cors new_res), [])"
    using assms by (intro stripe_handler_rejected [where b = b]) auto
  then show ?thesis by (simp add: statusCode_status_json)
next
  case (Some pd)
  have pt: "payment_type b = ''ach''" using assms(3) by (simp add: payment_type_def)
  show ?thesis
    using assms(6,7) pt
    by (simp add: stripe_handler_validated [OF assms(1,2,4,5) Some] statusCode_status_json)
qed

theorem ach_requires_usd_witness:
  "req_method (post_request (Some euro_form) (Some ''ach'')) = ''POST''
   \<and> body (post_request (Some euro_form) (Some ''ach''))
       = Some \<lparr>formData = Some euro_form, paymentType = Some ''ach''\<rparr>
   \<and> fd_pricing euro_form = Some (sample_pricing\<lparr>currency := Some ''eur''\<rparr>)
   \<and> currency (sample_pricing\<lparr>currency := Some ''eur''\<rparr>) = Some ''eur''
   \<and> toUpperCase ''eur'' \<noteq> ''USD''
   \<and> str_truthy (STRIPE_SECRET_KEY configured_env)
   \<and> snd (stripe_handler configured_env create_succeeds
         (post_request (Some euro_form) (Some ''ach''))) = []
   \<and> statusCode (fst (stripe_handler configured_env create_succeeds
         (post_request (Some euro_form) (Some ''ach'')))) = 400"
  using ach_requires_usd
    [of "post_request (Some euro_form) (Some ''ach'')"
        "\<lparr>formData = Some euro_form, paymentType = Some ''ach''\<rparr>"
        euro_form "sample_pricing\<lparr>currency := Some ''eur''\<rparr>" "''eur''"
        configured_env create_succeeds]
  by (simp add: post_request_def euro_form_def sample_form_def toUpperCase_def to_upper_char_def
      sample_settings)

text \<open>
  The claim as stated fails when the secret key is not configured: the key is tested before
  the currency, and the answer is 500.
\<close>

theorem ach_requires_usd_counterexample:
  "paymentType \<lparr>formData = Some euro_form, paymentType = Some ''ach''\<rparr> = Some ''ach''
   \<and> currency (sample_pricing\<lparr>currency := Some ''eur''\<rparr>) = Some ''eur''
   \<and> toUpperCase ''eur'' \<noteq> ''USD''
   \<and> statusCode (fst (stripe_handler unconfigured_env create_succeeds
         (post_request (Some euro_form) (Some ''ach'')))) = 500"
  by (simp add: toUpperCase_def to_upper_char_def
      stripe_handler_validated [where b = "\<lparr>formData = Some euro_form, paymentType = Some ''ach''\<rparr>"
        and fd = euro_form and pr = "sample_pricing\<lparr>currency := Some ''eur''\<rparr>" and pd = sample_product]
      post_request_def euro_form_def sample_form_def unconfigured_env_def str_truthy_def
      statusCode_status_json)

text \<open>
  C10. A POST request with form data, pricing and product but no customer is answered with
  400 by the crypto handler, without an outbound call. The card/ACH handler does not ask for
  the customer: when the secret key is configured, the currency is present and the request
  is not an ACH request in another currency than USD, it makes the provider call.
\<close>

theorem customer_required_by_crypto_only:
  assumes "req_method req = ''POST''" and "body req = Some b" and "formData b = Some fd"
    and "fd_pricing fd = Some pr" and "fd_product fd = Some pd" and "fd_customer fd = None"
  shows "statusCode (fst (crypto_handler e fetch req)) = 400
       \<and> snd (crypto_handler e fetch req) = []
       \<and> (str_truthy (STRIPE_SECRET_KEY e) \<and> currency pr = Some cur
            \<and> \<not> (payment_type b = ''ach'' \<and> toUpperCase cur \<noteq> ''USD'')
          \<longrightarrow> snd (stripe_handler e create req)
                = [build_session_config req cur fd pr pd (payment_type b = ''ach'')])"
proof -
  have "crypto_handler e fetch req =
      (status_json 400 [(''error'', Some (JStr ''Missing required form data''))] (set_cors new_res), [])"
    using assms by (intro crypto_handler_rejected [where b = b]) auto
  then show ?thesis
    by (auto simp add: statusCode_status_json stripe_handler_validated [OF assms(1-5)])
qed

theorem customer_required_by_crypto_only_witness:
  "req_method (post_request (Some anonymous_form) None) = ''POST''
   \<and> body (post_request (Some anonymous_form) None)
       = Some \<lparr>formData = Some anonymous_form, paymentType = None\<rparr>
   \<and> fd_pricing anonymous_form = Some sample_pricing
   \<and> fd_product anonymous_form = Some sample_product
   \<and> fd_customer anonymous_form = None
   \<and> str_truthy (STRIPE_SECRET_KEY configured_env)
   \<and> currency sample_pricing = Some ''usd''
   \<and> payment_type \<lparr>formData = Some anonymous_form, paymentType = None\<rparr> \<noteq> ''ach''
   \<and> statusCode (fst (crypto_handler configured_env (fetch_answers 200 sample_invoice)
         (post_request (Some anonymous_form) None))) = 400
   \<and> snd (crypto_handler configured_env (fetch_answers 200 sample_invoice)
         (post_request (Some anonymous_form) None)) = []
   \<and> snd (stripe_handler configured_env create_succeeds (post_request (Some anonymous_form) None))
       = [build_session_config (post_request (Some anonymous_form) None) ''usd'' anonymous_form
            sample_pricing sample_product False]"
  using customer_required_by_crypto_only
    [of "post_request (Some anonymous_form) None"
        "\<lparr>formData = Some anonymous_form, paymentType = None\<rparr>"
        anonymous_form sample_pricing sample_product configured_env
        "fetch_answers 200 sample_invoice" "''usd''" create_succeeds]
  by (simp add: post_request_def anonymous_form_def sample_form_def sample_settings payment_type_def)

text \<open>
  The claim as stated, that the card/ACH handler goes on to the provider call for every such
  request, fails when the secret key is not configured: the answer is 500 and no call is made.
\<close>

theorem customer_required_by_crypto_only_counterexample:
  "req_method (post_request (Some anonymous_form) None) = ''POST''
   \<and> fd_pricing anonymous_form = Some sample_pricing
   \<and> fd_product anonymous_form = Some sample_product
   \<and> fd_customer anonymous_form = None
   \<and> snd (stripe_handler unconfigured_env create_succeeds (post_request (Some anonymous_form) None)) = []
   \<and> statusCode (fst (stripe_handler unconfigured_env create_succeeds
         (post_request (Some anonymous_form) None))) = 500"
  by (simp add:
      stripe_handler_validated [where b = "\<lparr>formData = Some anonymous_form, paymentType = None\<rparr>"
        and fd = anonymous_form and pr = sample_pricing and pd = sample_product]
      post_request_def anonymous_form_def sample_form_def unconfigured_env_def str_truthy_def
      statusCode_status_json)

text \<open>
  C3. For a card/ACH request that reaches the provider call, the first line item is the
  product, and its unit amount is \<open>Math.round((s / quantity) * 100)\<close> in the arithmetic of
  doubles, where \<open>s\<close> is the pricing subtotal when that is truthy, and base price times
  quantity otherwise. The line items after it are the shipping item when the shipping
  amount is greater than 0 and the insurance item when the insurance amount is greater
  than 0, in this order, with the unit amounts \<open>Math.round(shipping * 100)\<close> and
  \<open>Math.round(insurance * 100)\<close>. For a positive subtotal and quantity whose quotient is
  between \<open>2 ^ - 1000\<close> and \<open>2 ^ 1000\<close>, the product's unit amount is a whole number that
  differs from a hundred times the exact quotient by at most a half and the \<open>2 ^ - 51\<close>th
  part of it.
\<close>

theorem line_item_unit_amounts:
  assumes "cfg \<in> set (snd (stripe_handler e create req))" and "body req = Some b"
    and "formData b = Some fd" and "fd_pricing fd = Some pr" and "fd_product fd = Some pd"
  shows "line_items cfg \<noteq> []
     \<and> pd_name (pr_product_data (li_price_data (hd (line_items cfg)))) = name pd
     \<and> unit_amount (li_price_data (hd (line_items cfg)))
         = Math_round (js_mul
             (js_div (if num_truthy (subtotal pr) then to_num (subtotal pr)
                      else js_mul (to_num (basePrice pd)) (to_num (quantity pd)))
                     (to_num (quantity pd)))
             (Fin 100))
     \<and> map (\<lambda>i. (pd_name (pr_product_data (li_price_data i)), unit_amount (li_price_data i)))
           (tl (line_items cfg))
         = (if js_gt_zero (to_num (shipping pr))
            then [(Some (if shipping_method fd = Some ''express''
                         then ''Express Shipping (2-5 days)'' else ''Standard Shipping''),
                   Math_round (js_mul (to_num (shipping pr)) (Fin 100)))]
            else [])
           @ (if js_gt_zero (to_num (insurance pr))
              then [(Some ''Order Insurance'', Math_round (js_mul (to_num (insurance pr)) (Fin 100)))]
              else [])
     \<and> (\<forall>s q. subtotal pr = Some (Fin s) \<and> quantity pd = Some (Fin q) \<and> 0 < s \<and> 0 < q
               \<and> 2 powi (- 1000) \<le> s / q \<and> s / q \<le> 2 powi 1000
            \<longrightarrow> cents_of (s / q) (unit_amount (li_price_data (hd (line_items cfg)))))"
proof -
  from stripe_handler_reach [OF assms(1)] assms(2-5)
  obtain cur where cfg: "cfg = build_session_config req cur fd pr pd (payment_type b = ''ach'')"
    by auto
  have li: "line_items cfg = build_line_items cur fd pr pd"
    by (simp add: cfg build_session_config_def)
  have first: "hd (line_items cfg) = product_item cur pr pd" "line_items cfg \<noteq> []"
    by (simp_all add: li build_line_items_def)
  have amount: "unit_amount (li_price_data (hd (line_items cfg)))
         = Math_round (js_mul
             (js_div (if num_truthy (subtotal pr) then to_num (subtotal pr)
                      else js_mul (to_num (basePrice pd)) (to_num (quantity pd)))
                     (to_num (quantity pd)))
             (Fin 100))"
    by (simp add: first product_item_def perItemPrice_def subtotal_used_def)
  have close: "cents_of (s / q) (unit_amount (li_price_data (hd (line_items cfg))))"
    if "subtotal pr = Some (Fin s)" "quantity pd = Some (Fin q)" "0 < s" "0 < q"
      "2 powi (- 1000) \<le> s / q" "s / q \<le> 2 powi 1000" for s q
  proof -
    have "num_truthy (subtotal pr)" using that(1,3) by (simp add: num_truthy_def is_zero_def)
    then have "unit_amount (li_price_data (hd (line_items cfg)))
        = Math_round (js_mul (js_div (Fin s) (Fin q)) (Fin 100))"
      using that(1,2) by (simp add: amount to_num_def)
    with cents_close [OF that(3-6)] show ?thesis by simp
  qed
  have rest: "map (\<lambda>i. (pd_name (pr_product_data (li_price_data i)), unit_amount (li_price_data i)))
           (tl (line_items cfg))
         = (if js_gt_zero (to_num (shipping pr))
            then [(Some (if shipping_method fd = Some ''express''
                         then ''Express Shipping (2-5 days)'' else ''Standard Shipping''),
                   Math_round (js_mul (to_num (shipping pr)) (Fin 100)))]
            else [])
           @ (if js_gt_zero (to_num (insurance pr))
              then [(Some ''Order Insurance'', Math_round (js_mul (to_num (insurance pr)) (Fin 100)))]
              else [])"
    by (simp add: li build_line_items_def positive_amount shipping_item_def insurance_item_def)
  have nm: "pd_name (pr_product_data (li_price_data (hd (line_items cfg)))) = name pd"
    by (simp add: first product_item_def)
  from first(2) nm amount rest close show ?thesis by blast
qed

text \<open>
  A subtotal of 23 for 40 pieces: the exact amount is 57.5 and the doubles give 57.49999...,
  so the unit amount is 57; a shipping amount of 0.015 gives a unit amount of 2.
\<close>

theorem line_item_unit_amounts_witness:
  "inexact_session_config
     \<in> set (snd (stripe_handler configured_env create_succeeds inexact_request))
   \<and> subtotal inexact_pricing = Some (Fin 23)
   \<and> quantity inexact_product = Some (Fin 40)
   \<and> (0::rat) < 23 \<and> (0::rat) < 40 \<and> 2 powi (- 1000) \<le> (23 / 40 :: rat) \<and> (23 / 40 :: rat) \<le> 2 powi 1000
   \<and> pd_name (pr_product_data (li_price_data (hd (line_items inexact_session_config))))
       = Some ''iPhone 15''
   \<and> unit_amount (li_price_data (hd (line_items inexact_session_config))) = Fin 57
   \<and> map (\<lambda>i. (pd_name (pr_product_data (li_price_data i)), unit_amount (li_price_data i)))
         (tl (line_items inexact_session_config))
       = [(Some ''Express Shipping (2-5 days)'', Fin 2), (Some ''Order Insurance'', Fin 1000)]
   \<and> cents_of (23 / 40) (Fin 57)"
proof -
  have f: "body inexact_request = Some \<lparr>formData = Some inexact_form, paymentType = None\<rparr>"
    "formData \<lparr>formData = Some inexact_form, paymentType = None\<rparr> = Some inexact_form"
    "fd_pricing inexact_form = Some inexact_pricing"
    "fd_product inexact_form = Some inexact_product"
    by (simp_all add: inexact_request_def post_request_def inexact_form_def sample_form_def)
  have v: "subtotal inexact_pricing = Some (Fin 23)" "quantity inexact_product = Some (Fin 40)"
    "shipping inexact_pricing = Some (Fin (1080863910568919 / 72057594037927936))"
    "insurance inexact_pricing = Some (Fin 10)" "name inexact_product = Some ''iPhone 15''"
    "shipping_method inexact_form = Some ''express''"
    by (simp_all add: inexact_pricing_def inexact_product_def sample_product_def double_of_0_015
        inexact_form_def sample_form_def shipping_method_def)
  have r: "(2::rat) powi (- 1000) \<le> 23 / 40" "(23 / 40 :: rat) \<le> 2 powi 1000"
    by simp_all
  from line_item_unit_amounts [OF inexact_call f]
  show ?thesis
    by (auto simp add: inexact_call v r num_truthy_def is_zero_def to_num_def cents_23_per_40
        cents_0_015 cents_10)
qed

text \<open>
  The claim as stated, with the pricing subtotal in the formula, fails for a subtotal of
  zero: the formula gives 0, and the handler charges base price times quantity, here
  a unit amount of 50000.
\<close>

theorem line_item_unit_amounts_counterexample:
  "subtotal (sample_pricing\<lparr>subtotal := Some (Fin 0)\<rparr>) = Some (Fin 0)
   \<and> basePrice sample_product = Some (Fin 500)
   \<and> quantity sample_product = Some (Fin 2)
   \<and> map (\<lambda>cfg. unit_amount (li_price_data (hd (line_items cfg))))
         (snd (stripe_handler configured_env create_succeeds (post_request (Some zero_subtotal_form) None)))
       = [Fin 50000]
   \<and> Math_round (js_mul (js_div (Fin 0) (Fin 2)) (Fin 100)) = Fin 0"
  by (simp add:
      stripe_handler_validated [where b = "\<lparr>formData = Some zero_subtotal_form, paymentType = None\<rparr>"
        and fd = zero_subtotal_form and pr = "sample_pricing\<lparr>subtotal := Some (Fin 0)\<rparr>"
        and pd = sample_product]
      post_request_def zero_subtotal_form_def sample_form_def sample_settings
      sample_pricing_def sample_product_def payment_type_def
      build_session_config_def build_line_items_def product_item_def perItemPrice_def
      subtotal_used_def num_truthy_def is_zero_def to_num_def cents_fallback cents_zero_subtotal)

text \<open>
  C4. When the provider answers the crypto handler with a status from 200 to 299 and a
  parsed body whose \<open>invoice_url\<close> is truthy, the response is 200 with \<open>invoice_url\<close>,
  \<open>order_id\<close>, \<open>created_at\<close>, \<open>pay_address\<close>, \<open>pay_amount\<close> and \<open>pay_currency\<close> as the body
  has them, and \<open>invoice_id\<close> as the body's \<open>id\<close>. When the \<open>invoice_url\<close> is absent or falsy,
  the response is 500.
\<close>

theorem invoice_passthrough:
  assumes "c \<in> set (snd (crypto_handler e fetch req))" and "fetch c = FetchResponse rsp"
    and "response_ok rsp" and "up_parsed rsp = Some data"
  shows "(js_truthy (json_prop data ''invoice_url'')
            \<longrightarrow> fst (crypto_handler e fetch req)
                = status_json 200
                    [(''invoice_url'', json_prop data ''invoice_url''),
                     (''invoice_id'', json_prop data ''id''),
                     (''order_id'', json_prop data ''order_id''),
                     (''created_at'', json_prop data ''created_at''),
                     (''pay_address'', json_prop data ''pay_address''),
                     (''pay_amount'', json_prop data ''pay_amount''),
                     (''pay_currency'', json_prop data ''pay_currency'')] (set_cors new_res))
       \<and> (\<not> js_truthy (json_prop data ''invoice_url'')
            \<longrightarrow> statusCode (fst (crypto_handler e fetch req)) = 500)"
proof (intro conjI impI)
  assume t: "js_truthy (json_prop data ''invoice_url'')"
  show "fst (crypto_handler e fetch req)
      = status_json 200
          [(''invoice_url'', json_prop data ''invoice_url''),
           (''invoice_id'', json_prop data ''id''),
           (''order_id'', json_prop data ''order_id''),
           (''created_at'', json_prop data ''created_at''),
           (''pay_address'', json_prop data ''pay_address''),
           (''pay_amount'', json_prop data ''pay_amount''),
           (''pay_currency'', json_prop data ''pay_currency'')] (set_cors new_res)"
    by (simp add: crypto_handler_reach [OF assms(1)] crypto_after_fetch_def assms(2,4)
        crypto_respond_success [OF assms(3) t])
next
  assume f: "\<not> js_truthy (json_prop data ''invoice_url'')"
  from crypto_respond_no_invoice_url [OF assms(3) f, where r = "set_cors new_res" and e = e]
  show "statusCode (fst (crypto_handler e fetch req)) = 500"
    by (simp add: crypto_handler_reach [OF assms(1)] crypto_after_fetch_def assms(2,4)
        split: sum.splits)
qed

theorem invoice_passthrough_witness:
  "sample_fetch_request
     \<in> set (snd (crypto_handler configured_env (fetch_answers 200 sample_invoice) sample_request))
   \<and> fetch_answers 200 sample_invoice sample_fetch_request
       = FetchResponse \<lparr>up_status = 200, up_parsed = Some sample_invoice\<rparr>
   \<and> response_ok \<lparr>up_status = 200, up_parsed = Some sample_invoice\<rparr>
   \<and> js_truthy (json_prop sample_invoice ''invoice_url'')
   \<and> fst (crypto_handler configured_env (fetch_answers 200 sample_invoice) sample_request)
       = status_json 200
           [(''invoice_url'', Some (JStr ''https://nowpayments.io/payment/?iid=4522625843'')),
            (''invoice_id'', Some (JStr ''4522625843'')),
            (''order_id'', Some (JStr ''WSI-1001'')),
            (''created_at'', Some (JStr ''2024-01-01T00:00:00.000Z'')),
            (''pay_address'', None),
            (''pay_amount'', None),
            (''pay_currency'', None)] (set_cors new_res)
   \<and> \<not> js_truthy (json_prop (JObj []) ''invoice_url'')
   \<and> statusCode (fst (crypto_handler configured_env (fetch_answers 201 (JObj [])) sample_request)) = 500"
proof -
  have a: "fetch_answers 200 sample_invoice sample_fetch_request
       = FetchResponse \<lparr>up_status = 200, up_parsed = Some sample_invoice\<rparr>"
    and b: "fetch_answers 201 (JObj []) sample_fetch_request
       = FetchResponse \<lparr>up_status = 201, up_parsed = Some (JObj [])\<rparr>"
    by (simp_all add: fetch_answers_def)
  have ok: "response_ok \<lparr>up_status = 200, up_parsed = Some sample_invoice\<rparr>"
    "response_ok \<lparr>up_status = 201, up_parsed = Some (JObj [])\<rparr>"
    by (simp_all add: response_ok_def)
  from invoice_passthrough
         [where fetch = "fetch_answers 200 sample_invoice" and c = sample_fetch_request
            and data = sample_invoice, OF sample_crypto_call a ok(1)]
       invoice_passthrough
         [where fetch = "fetch_answers 201 (JObj [])" and c = sample_fetch_request
            and data = "JObj []", OF sample_crypto_call b ok(2)]
  show ?thesis
    by (simp add: sample_crypto_call fetch_answers_def response_ok_def json_prop_def
        sample_invoice_def)
qed

text \<open>
  The claim as stated, with 200 for every body that contains \<open>invoice_url\<close> and every field
  copied from the body, fails for a body whose \<open>invoice_url\<close> is the empty string, where the
  answer is 500, and for a body with an \<open>invoice_id\<close> and no \<open>id\<close>, where the \<open>invoice_id\<close>
  sent is \<open>undefined\<close>.
\<close>

theorem invoice_passthrough_counterexample:
  "json_prop (JObj [(''invoice_url'', JStr [])]) ''invoice_url'' = Some (JStr [])
   \<and> statusCode (fst (crypto_handler configured_env
         (fetch_answers 200 (JObj [(''invoice_url'', JStr [])])) sample_request)) = 500
   \<and> json_prop (JObj [(''invoice_url'', JStr ''https://nowpayments.io/payment/?iid=1''),
                       (''invoice_id'', JStr ''1'')]) ''invoice_id'' = Some (JStr ''1'')
   \<and> sent_prop (fst (crypto_handler configured_env
         (fetch_answers 200 (JObj [(''invoice_url'', JStr ''https://nowpayments.io/payment/?iid=1''),
                                   (''invoice_id'', JStr ''1'')])) sample_request)) ''invoice_id''
       = None"
  by (simp add: sample_crypto_result fetch_answers_def crypto_after_fetch_def crypto_respond_def
      response_ok_def and_then_def json_prop_def statusCode_status_json sent_prop_status_json)

text \<open>
  C5. When the provider answers the crypto handler with status 401 and a body that parses,
  the response is 500 with the authentication-failed message. When it answers with status
  400 and a parsed body other than \<open>null\<close>, the response is 400, and its \<open>details\<close> are the
  body's \<open>message\<close> when that is truthy and \<open>Invalid request parameters\<close> otherwise.
\<close>

theorem upstream_401_and_400:
  assumes "c \<in> set (snd (crypto_handler e fetch req))" and "fetch c = FetchResponse rsp"
    and "up_parsed rsp = Some data"
  shows "(up_status rsp = 401
            \<longrightarrow> statusCode (fst (crypto_handler e fetch req)) = 500
                \<and> sent_prop (fst (crypto_handler e fetch req)) ''error''
                    = Some (JStr ''Payment system authentication failed. Please contact support.''))
       \<and> (up_status rsp = 400 \<and> data \<noteq> JNull
            \<longrightarrow> statusCode (fst (crypto_handler e fetch req)) = 400
                \<and> sent_prop (fst (crypto_handler e fetch req)) ''details''
                    = (if js_truthy (json_prop data ''message'') then json_prop data ''message''
                       else Some (JStr ''Invalid request parameters'')))"
  by (simp add: crypto_handler_reach [OF assms(1)] crypto_after_fetch_def assms(2,3)
      crypto_respond_def response_ok_def js_get_not_null and_then_simps js_or_str_def
      statusCode_status_json sent_prop_status_json)

theorem upstream_401_and_400_witness:
  "sample_fetch_request
     \<in> set (snd (crypto_handler configured_env
           (fetch_answers 401 (JObj [(''message'', JStr ''Invalid api key'')])) sample_request))
   \<and> statusCode (fst (crypto_handler configured_env
         (fetch_answers 401 (JObj [(''message'', JStr ''Invalid api key'')])) sample_request)) = 500
   \<and> sent_prop (fst (crypto_handler configured_env
         (fetch_answers 401 (JObj [(''message'', JStr ''Invalid api key'')])) sample_request)) ''error''
       = Some (JStr ''Payment system authentication failed. Please contact support.'')
   \<and> JObj [(''message'', JStr ''price_amount must be a number'')] \<noteq> JNull
   \<and> statusCode (fst (crypto_handler configured_env
         (fetch_answers 400 (JObj [(''message'', JStr ''price_amount must be a number'')]))
         sample_request)) = 400
   \<and> sent_prop (fst (crypto_handler configured_env
         (fetch_answers 400 (JObj [(''message'', JStr ''price_amount must be a number'')]))
         sample_request)) ''details''
       = Some (JStr ''price_amount must be a number'')"
proof -
  have a: "fetch_answers 401 (JObj [(''message'', JStr ''Invalid api key'')]) sample_fetch_request
       = FetchResponse \<lparr>up_status = 401, up_parsed = Some (JObj [(''message'', JStr ''Invalid api key'')])\<rparr>"
    and b: "fetch_answers 400 (JObj [(''message'', JStr ''price_amount must be a number'')])
              sample_fetch_request
       = FetchResponse \<lparr>up_status = 400,
           up_parsed = Some (JObj [(''message'', JStr ''price_amount must be a number'')])\<rparr>"
    by (simp_all add: fetch_answers_def)
  from upstream_401_and_400
         [where fetch = "fetch_answers 401 (JObj [(''message'', JStr ''Invalid api key'')])"
            and c = sample_fetch_request and data = "JObj [(''message'', JStr ''Invalid api key'')]",
          OF sample_crypto_call a]
       upstream_401_and_400
         [where fetch = "fetch_answers 400 (JObj [(''message'', JStr ''price_amount must be a number'')])"
            and c = sample_fetch_request
            and data = "JObj [(''message'', JStr ''price_amount must be a number'')]",
          OF sample_crypto_call b]
  show ?thesis
    by (simp add: sample_crypto_call json_prop_def)
qed

text \<open>
  The claim as stated, with 400 and the provider's message for every status 400 with a body
  that parses, fails for the body \<open>null\<close>, where reading the message throws and the answer is
  500, and for a body without a message, where the details are a fixed text.
\<close>

theorem upstream_401_and_400_counterexample:
  "statusCode (fst (crypto_handler configured_env (fetch_answers 400 JNull) sample_request)) = 500
   \<and> json_prop (JObj []) ''message'' = None
   \<and> sent_prop (fst (crypto_handler configured_env (fetch_answers 400 (JObj [])) sample_request))
         ''details''
       = Some (JStr ''Invalid request parameters'')"
  by (simp add: sample_crypto_result fetch_answers_def crypto_after_fetch_def crypto_respond_def
      response_ok_def and_then_def json_prop_def js_or_str_def crypto_catch_def TypeError_def
      statusCode_status_json sent_prop_status_json)

end
